theory Spec2Isabelle
  imports Complex_Main "HOL-Library.Sublist" "HOL-Library.Multiset"
begin

section \<open>Strings\<close>

text \<open>
  A JavaScript string is modelled as a \<^typ>\<open>string\<close>; \<open>length\<close> is the string's
  \<open>.length\<close>. \<open>String.prototype.includes\<close> is containment as a contiguous substring.
  \<open>String.prototype.toLowerCase\<close> is a built-in of the language: the functions below take
  it as the parameter \<open>toLowerCase\<close>, and \<open>ascii_toLowerCase\<close> is its restriction to ASCII
  letters, used for concrete inputs.
\<close>

definition String_includes :: "string \<Rightarrow> string \<Rightarrow> bool" where
  "String_includes s searchString = sublist searchString s"

definition ascii_toLowerCase :: "string \<Rightarrow> string" where
  "ascii_toLowerCase s =
     map (\<lambda>c. case map_of (zip ''ABCDEFGHIJKLMNOPQRSTUVWXYZ'' ''abcdefghijklmnopqrstuvwxyz'') c of
                Some l \<Rightarrow> l
              | None \<Rightarrow> c) s"

text \<open>\<open>new Set(xs)\<close>: the distinct elements of \<open>xs\<close> in order of first insertion.\<close>

fun new_Set :: "string list \<Rightarrow> string list" where
  "new_Set [] = []"
| "new_Set (x # xs) = x # filter (\<lambda>y. y \<noteq> x) (new_Set xs)"

section \<open>Numbers\<close>

text \<open>
  A JavaScript number is an IEEE 754 binary64 value. A finite one is modelled by the real
  it denotes, and the result of an arithmetic operation is the exact result rounded to
  the nearest binary64 value, a tie to the value with an even significand.

  \<open>binade x\<close> is the exponent of \<open>x\<close>, at least \<open>-1022\<close> (below it the values are subnormal
  and spaced like those of the smallest normal binade); \<open>ulp x\<close> is the distance between
  the neighbouring binary64 values there (the significand has 53 bits), and \<open>binary64 x\<close>
  is the nearest multiple of \<open>ulp x\<close>.
\<close>

definition binade :: "real \<Rightarrow> int" where
  "binade x = max \<lfloor>log 2 \<bar>x\<bar>\<rfloor> (- 1022)"

definition ulp :: "real \<Rightarrow> real" where
  "ulp x = 2 powi (binade x - 52)"

definition round_half_even :: "real \<Rightarrow> int" where
  "round_half_even y =
     (let f = \<lfloor>y\<rfloor>; r = y - of_int f
      in if r < 1 / 2 then f else if 1 / 2 < r then f + 1 else if even f then f else f + 1)"

definition binary64 :: "real \<Rightarrow> real" where
  "binary64 x = (if x = 0 then 0 else of_int (round_half_even (x / ulp x)) * ulp x)"

text \<open>
  A rounded result of magnitude \<open>2 ^ 1024\<close> or more is out of range and becomes an
  infinity. \<open>NaN\<close> is left out: it does not arise from the operations below, whose left
  operand is finite or an infinity and whose right operand is a positive constant. The
  sign of zero is left out as well: no operation below tells the two zeros apart, and a
  response prints both as \<open>0\<close>.
\<close>

datatype number = Num real | PosInfinity | NegInfinity

definition to_number :: "real \<Rightarrow> number" where
  "to_number x =
     (let y = binary64 x
      in if 2 ^ 1024 \<le> y then PosInfinity
         else if y \<le> - (2 ^ 1024) then NegInfinity
         else Num y)"

text \<open>\<open>a + c\<close>, \<open>a * c\<close> and \<open>a / c\<close> for a positive constant \<open>c\<close>.\<close>

fun number_plus :: "number \<Rightarrow> real \<Rightarrow> number" where
  "number_plus (Num x) c = to_number (x + c)"
| "number_plus PosInfinity c = PosInfinity"
| "number_plus NegInfinity c = NegInfinity"

fun number_times :: "number \<Rightarrow> real \<Rightarrow> number" where
  "number_times (Num x) c = to_number (x * c)"
| "number_times PosInfinity c = PosInfinity"
| "number_times NegInfinity c = NegInfinity"

fun number_divide :: "number \<Rightarrow> real \<Rightarrow> number" where
  "number_divide (Num x) c = to_number (x / c)"
| "number_divide PosInfinity c = PosInfinity"
| "number_divide NegInfinity c = NegInfinity"

text \<open>
  \<open>Math.round\<close> gives the nearest integer, a tie towards \<open>+\<infinity>\<close>; the result is a binary64
  value, so nothing is rounded twice.
\<close>

fun Math_round :: "number \<Rightarrow> number" where
  "Math_round (Num x) = Num (of_int \<lfloor>x + 1 / 2\<rfloor>)"
| "Math_round PosInfinity = PosInfinity"
| "Math_round NegInfinity = NegInfinity"

section \<open>Data model (types)\<close>

record ExtractedSkills =
  technicalSkills :: "string list"
  frameworks :: "string list"
  languages :: "string list"
  tools :: "string list"
  softSkills :: "string list"
  yearsOfExperience :: "real option"
  currentRole :: "string option"
  education :: "string list option"
  certifications :: "string list option"

record SkillGap =
  missing :: "string list"
  matched :: "string list"
  partial :: "string list"

section \<open>AIService.analyzeSkillGaps\<close>

text \<open>
  The body of the \<open>for (const skill of jobAllSkills)\<close> loop, as a recursion over the
  remaining job skills; the three arrays being pushed to are the fields of the
  accumulated \<^typ>\<open>SkillGap\<close>.
\<close>

fun analyzeSkillGaps_loop ::
  "(string \<Rightarrow> string) \<Rightarrow> string list \<Rightarrow> string list \<Rightarrow> SkillGap \<Rightarrow> SkillGap" where
  "analyzeSkillGaps_loop toLowerCase resumeAllSkills [] g = g"
| "analyzeSkillGaps_loop toLowerCase resumeAllSkills (skill # rest) g =
     (let skillLower = toLowerCase skill in
      if skillLower \<in> set resumeAllSkills
      then analyzeSkillGaps_loop toLowerCase resumeAllSkills rest
             (g\<lparr>matched := matched g @ [skill]\<rparr>)
      else
        (let hasPartialMatch =
               list_ex (\<lambda>rs. String_includes rs skillLower \<or> String_includes skillLower rs) resumeAllSkills
         in if hasPartialMatch
            then analyzeSkillGaps_loop toLowerCase resumeAllSkills rest
                   (g\<lparr>partial := partial g @ [skill]\<rparr>)
            else analyzeSkillGaps_loop toLowerCase resumeAllSkills rest
                   (g\<lparr>missing := missing g @ [skill]\<rparr>)))"

definition combinedSkills :: "ExtractedSkills \<Rightarrow> string list" where
  "combinedSkills s = technicalSkills s @ frameworks s @ tools s"

definition analyzeSkillGaps ::
  "(string \<Rightarrow> string) \<Rightarrow> ExtractedSkills \<Rightarrow> ExtractedSkills \<Rightarrow> SkillGap" where
  "analyzeSkillGaps toLowerCase resumeSkills jobSkills =
     (let resumeAllSkills = new_Set (map toLowerCase (combinedSkills resumeSkills));
          jobAllSkills = combinedSkills jobSkills
      in analyzeSkillGaps_loop toLowerCase resumeAllSkills jobAllSkills
           \<lparr>missing = [], matched = [], partial = []\<rparr>)"


section \<open>JSON values and the zod schemas\<close>

text \<open>
  A value produced by \<open>JSON.parse\<close> (a request body, an oracle's answer). An object is
  the list of its own properties; reading a property that is missing, or a property of
  a value that is not an object, gives \<open>undefined\<close>, modelled as \<open>None\<close>.
\<close>

datatype json =
    JNull
  | JBool bool
  | JNum real
  | JStr string
  | JArr "json list"
  | JObj "(string \<times> json) list"

definition get_prop :: "json \<Rightarrow> string \<Rightarrow> json option" where
  "get_prop v k = (case v of JObj kvs \<Rightarrow> map_of kvs k | _ \<Rightarrow> None)"

datatype path_elem = Key string | Index nat

datatype ZodIssue =
    invalid_type "path_elem list"
  | too_small "path_elem list" string

fun at_path :: "path_elem \<Rightarrow> ZodIssue \<Rightarrow> ZodIssue" where
  "at_path p (invalid_type ps) = invalid_type (p # ps)"
| "at_path p (too_small ps m) = too_small (p # ps) m"

definition under :: "path_elem \<Rightarrow> ZodIssue list + 'a \<Rightarrow> ZodIssue list + 'a" where
  "under p r = (case r of Inl issues \<Rightarrow> Inl (map (at_path p) issues) | Inr v \<Rightarrow> Inr v)"

definition issues_of :: "ZodIssue list + 'a \<Rightarrow> ZodIssue list" where
  "issues_of r = (case r of Inl issues \<Rightarrow> issues | Inr _ \<Rightarrow> [])"

text \<open>\<open>z.string()\<close>, \<open>z.string().min(n, message)\<close>, \<open>z.number()\<close>.\<close>

definition z_string :: "json option \<Rightarrow> ZodIssue list + string" where
  "z_string v = (case v of Some (JStr s) \<Rightarrow> Inr s | _ \<Rightarrow> Inl [invalid_type []])"

definition z_string_min :: "nat \<Rightarrow> string \<Rightarrow> json option \<Rightarrow> ZodIssue list + string" where
  "z_string_min n message v =
     (case z_string v of
        Inl issues \<Rightarrow> Inl issues
      | Inr s \<Rightarrow> if length s < n then Inl [too_small [] message] else Inr s)"

definition z_number :: "json option \<Rightarrow> ZodIssue list + real" where
  "z_number v = (case v of Some (JNum n) \<Rightarrow> Inr n | _ \<Rightarrow> Inl [invalid_type []])"

text \<open>\<open>z.array(z.string())\<close>: every element is checked, issues carry the element's index.\<close>

definition z_array_string :: "json option \<Rightarrow> ZodIssue list + string list" where
  "z_array_string v =
     (case v of
        Some (JArr xs) \<Rightarrow>
          (let rs = map (\<lambda>(i, x). under (Index i) (z_string (Some x))) (zip [0..<length xs] xs);
               issues = concat (map issues_of rs)
           in if issues = [] then Inr (concat (map (\<lambda>r. case r of Inr s \<Rightarrow> [s] | Inl _ \<Rightarrow> []) rs))
              else Inl issues)
      | _ \<Rightarrow> Inl [invalid_type []])"

text \<open>\<open>.optional()\<close> accepts \<open>undefined\<close>; \<open>.default(d)\<close> replaces \<open>undefined\<close> by \<open>d\<close>.\<close>

definition z_optional ::
  "(json option \<Rightarrow> ZodIssue list + 'a) \<Rightarrow> json option \<Rightarrow> ZodIssue list + 'a option" where
  "z_optional schema v =
     (case v of
        None \<Rightarrow> Inr None
      | Some _ \<Rightarrow> (case schema v of Inl issues \<Rightarrow> Inl issues | Inr a \<Rightarrow> Inr (Some a)))"

definition z_default ::
  "(json option \<Rightarrow> ZodIssue list + 'a) \<Rightarrow> 'a \<Rightarrow> json option \<Rightarrow> ZodIssue list + 'a" where
  "z_default schema d v = (case v of None \<Rightarrow> Inr d | Some _ \<Rightarrow> schema v)"

record JobMatchRequest =
  resumeId :: string
  jobTitle :: string
  jobDescription :: string
  company :: "string option"

definition JobMatchRequestSchema_safeParse :: "json \<Rightarrow> ZodIssue list + JobMatchRequest" where
  "JobMatchRequestSchema_safeParse body =
     (case body of
        JObj _ \<Rightarrow>
          (let r1 = under (Key ''resumeId'')
                      (z_string_min 1 ''Resume ID is required'' (get_prop body ''resumeId''));
               r2 = under (Key ''jobTitle'')
                      (z_string_min 1 ''Job title is required'' (get_prop body ''jobTitle''));
               r3 = under (Key ''jobDescription'')
                      (z_string_min 50 ''Job description must be at least 50 characters''
                         (get_prop body ''jobDescription''));
               r4 = under (Key ''company'') (z_optional z_string (get_prop body ''company''))
           in case (r1, r2, r3, r4) of
                (Inr a, Inr b, Inr c, Inr d) \<Rightarrow>
                  Inr \<lparr>resumeId = a, jobTitle = b, jobDescription = c, company = d\<rparr>
              | _ \<Rightarrow> Inl (issues_of r1 @ issues_of r2 @ issues_of r3 @ issues_of r4))
      | _ \<Rightarrow> Inl [invalid_type []])"

definition ExtractedSkillsSchema_parse :: "json \<Rightarrow> ZodIssue list + ExtractedSkills" where
  "ExtractedSkillsSchema_parse raw =
     (case raw of
        JObj _ \<Rightarrow>
          (let r1 = under (Key ''technicalSkills'')
                      (z_default z_array_string [] (get_prop raw ''technicalSkills''));
               r2 = under (Key ''frameworks'')
                      (z_default z_array_string [] (get_prop raw ''frameworks''));
               r3 = under (Key ''languages'')
                      (z_default z_array_string [] (get_prop raw ''languages''));
               r4 = under (Key ''tools'')
                      (z_default z_array_string [] (get_prop raw ''tools''));
               r5 = under (Key ''softSkills'')
                      (z_default z_array_string [] (get_prop raw ''softSkills''));
               r6 = under (Key ''yearsOfExperience'')
                      (z_optional z_number (get_prop raw ''yearsOfExperience''));
               r7 = under (Key ''currentRole'')
                      (z_optional z_string (get_prop raw ''currentRole''));
               r8 = under (Key ''education'')
                      (z_optional z_array_string (get_prop raw ''education''));
               r9 = under (Key ''certifications'')
                      (z_optional z_array_string (get_prop raw ''certifications''))
           in case (r1, r2, r3, r4, r5, r6, r7, r8, r9) of
                (Inr a, Inr b, Inr c, Inr d, Inr e, Inr f, Inr g, Inr h, Inr i) \<Rightarrow>
                  Inr \<lparr>technicalSkills = a, frameworks = b, languages = c, tools = d,
                       softSkills = e, yearsOfExperience = f, currentRole = g,
                       education = h, certifications = i\<rparr>
              | _ \<Rightarrow> Inl (issues_of r1 @ issues_of r2 @ issues_of r3 @ issues_of r4
                          @ issues_of r5 @ issues_of r6 @ issues_of r7 @ issues_of r8
                          @ issues_of r9))
      | _ \<Rightarrow> Inl [invalid_type []])"

section \<open>Errors, stored records and the outside world\<close>

text \<open>
  A thrown value. \<open>Wrapped prefix e\<close> is \<open>new Error(prefix + e.message)\<close>; \<open>TypeError\<close> is
  the error of reading a property of \<open>undefined\<close> or \<open>null\<close>; \<open>PrismaError code\<close> is a
  known-request error of the record store.
\<close>

datatype error =
    Error string
  | Wrapped string error
  | ZodError "ZodIssue list"
  | TypeError
  | PrismaError string

type_synonym embedding_vec = "real list"

record Resume =
  resume_id :: string
  resume_fileName :: string
  resume_rawText :: string
  resume_extractedSkills :: ExtractedSkills
  resume_vectorId :: "string option"

record JobDescription =
  job_id :: string
  job_title :: string
  job_company :: "string option"
  job_description :: string
  job_requiredSkills :: ExtractedSkills
  job_vectorId :: "string option"

record JobMatch =
  match_id :: string
  match_resumeId :: string
  match_jobId :: string
  match_similarityScore :: number
  match_skillGaps :: SkillGap
  match_matchedSkills :: "string list"
  match_interviewQuestions :: "json list"
  match_recommendations :: "json list"

record VectorMetadata =
  meta_type :: string
  meta_id :: string
  meta_skills :: "string list"
  meta_title :: "string option"

record VectorQueryResult =
  vqr_id :: string
  vqr_score :: real
  vqr_metadata :: VectorMetadata

text \<open>What the index holds for one vector, and one match as the index returns it
  (score and metadata may be missing).\<close>

record PineconeRecord =
  pr_id :: string
  pr_values :: embedding_vec
  pr_metadata :: VectorMetadata

record RecordMetadata =
  rm_type :: "string option"
  rm_id :: "string option"
  rm_skills :: "string list option"
  rm_title :: "string option"

record ScoredRecord =
  sr_id :: string
  sr_score :: "real option"
  sr_metadata :: "RecordMetadata option"

text \<open>
  Every call that leaves the process is recorded, in order, in the world's list of
  events: calls of the language model and of the embedding model, of the vector index,
  and of the record store.
\<close>

datatype event =
    OpenAI_extract string
  | OpenAI_embedding string
  | OpenAI_questions string SkillGap "string list"
  | OpenAI_recommendations string SkillGap
  | Pinecone_listIndexes
  | Pinecone_createIndex
  | Pinecone_describeIndex
  | Pinecone_upsert PineconeRecord
  | Pinecone_query embedding_vec "real option" "string option"
  | Pinecone_deleteOne string
  | Prisma string

text \<open>
  The collaborators outside the repository. Each answer may depend on the whole history
  of calls so far, so two calls with the same argument may be answered differently.
  An answer \<open>Inl e\<close> (or \<open>Some e\<close> where nothing is returned) is the call throwing \<open>e\<close>.
  \<^item> \<open>openai_extract\<close>, \<open>openai_questions\<close>, \<open>openai_recommendations\<close>: the chat
    completion, followed by \<open>JSON.parse\<close> of its content; a missing content and a syntax
    error are among the errors.
  \<^item> \<open>pinecone_waitReady\<close>: the outcome of polling \<open>describeIndex\<close> until the index is
    ready or 60 seconds have passed (\<open>Some e\<close> is the timeout error).
  \<^item> \<open>prisma_cuid\<close>: the identifier the record store generates for a new row.
  \<^item> \<open>ToNumber_other\<close>: the language's conversion to a number of a string, an array or
    an object (\<open>None\<close> is \<open>NaN\<close>).
\<close>

record env =
  INDEX_NAME :: string
  String_toLowerCase :: "string \<Rightarrow> string"
  ToNumber_other :: "json \<Rightarrow> real option"
  openai_extract :: "event list \<Rightarrow> string \<Rightarrow> error + json"
  openai_embedding :: "event list \<Rightarrow> string \<Rightarrow> error + embedding_vec"
  openai_questions :: "event list \<Rightarrow> string \<Rightarrow> SkillGap \<Rightarrow> string list \<Rightarrow> error + json"
  openai_recommendations :: "event list \<Rightarrow> string \<Rightarrow> SkillGap \<Rightarrow> error + json"
  pinecone_listIndexes :: "event list \<Rightarrow> error + string list option"
  pinecone_createIndex :: "event list \<Rightarrow> error option"
  pinecone_waitReady :: "event list \<Rightarrow> error option"
  pinecone_upsert :: "event list \<Rightarrow> PineconeRecord \<Rightarrow> error option"
  pinecone_query ::
    "event list \<Rightarrow> embedding_vec \<Rightarrow> real option \<Rightarrow> string option
       \<Rightarrow> error + ScoredRecord list option"
  pinecone_deleteOne :: "event list \<Rightarrow> string \<Rightarrow> error option"
  prisma_cuid :: "event list \<Rightarrow> string"

text \<open>
  The state the handlers act on: the three tables of the record store, the vectors held
  by the index, the service's \<open>indexInitialized\<close> flag and the events so far. The record
  store is an in-memory table that answers every call; timestamps are left out, no
  modelled operation reads them.
\<close>

record world =
  resumes :: "Resume list"
  jobs :: "JobDescription list"
  matches :: "JobMatch list"
  vectors :: "PineconeRecord list"
  indexInitialized :: bool
  events :: "event list"

definition record_event :: "event \<Rightarrow> world \<Rightarrow> world" where
  "record_event e w = w\<lparr>events := events w @ [e]\<rparr>"

section \<open>VectorService\<close>

definition initializeIndex :: "env \<Rightarrow> world \<Rightarrow> (error + unit) \<times> world" where
  "initializeIndex env w =
     (if indexInitialized w then (Inr (), w)
      else
        (let w1 = record_event Pinecone_listIndexes w in
         case pinecone_listIndexes env (events w) of
           Inl e \<Rightarrow> (Inl e, w1)
         | Inr indexes \<Rightarrow>
             (let indexExists =
                    (case indexes of None \<Rightarrow> False | Some names \<Rightarrow> INDEX_NAME env \<in> set names)
              in if indexExists then (Inr (), w1\<lparr>indexInitialized := True\<rparr>)
                 else
                   (let w2 = record_event Pinecone_createIndex w1 in
                    case pinecone_createIndex env (events w1) of
                      Some e \<Rightarrow> (Inl e, w2)
                    | None \<Rightarrow>
                        (let w3 = record_event Pinecone_describeIndex w2 in
                         case pinecone_waitReady env (events w2) of
                           Some e \<Rightarrow> (Inl e, w3)
                         | None \<Rightarrow> (Inr (), w3\<lparr>indexInitialized := True\<rparr>))))))"

definition store_vector :: "PineconeRecord \<Rightarrow> PineconeRecord list \<Rightarrow> PineconeRecord list" where
  "store_vector r vs = filter (\<lambda>v. pr_id v \<noteq> pr_id r) vs @ [r]"

definition upsertJob ::
  "env \<Rightarrow> string \<Rightarrow> embedding_vec \<Rightarrow> string list \<Rightarrow> string \<Rightarrow> world
     \<Rightarrow> (error + string) \<times> world" where
  "upsertJob env ident embedding skills title w =
     (case initializeIndex env w of
        (Inl e, w1) \<Rightarrow> (Inl e, w1)
      | (Inr _, w1) \<Rightarrow>
          (let vectorId = ''job_'' @ ident;
               metadata = \<lparr>meta_type = ''job'', meta_id = ident, meta_skills = skills,
                           meta_title = Some title\<rparr>;
               r = \<lparr>pr_id = vectorId, pr_values = embedding, pr_metadata = metadata\<rparr>;
               w2 = record_event (Pinecone_upsert r) w1
           in case pinecone_upsert env (events w1) r of
                Some e \<Rightarrow> (Inl (Error ''Failed to store job in vector database''), w2)
              | None \<Rightarrow> (Inr vectorId, w2\<lparr>vectors := store_vector r (vectors w2)\<rparr>)))"

text \<open>\<open>a || b\<close> on a string that may be missing: the empty string is falsy.\<close>

definition or_string :: "string option \<Rightarrow> string \<Rightarrow> string" where
  "or_string a b = (case a of None \<Rightarrow> b | Some x \<Rightarrow> if x = [] then b else x)"

definition or_number :: "real option \<Rightarrow> real \<Rightarrow> real" where
  "or_number a b = (case a of None \<Rightarrow> b | Some x \<Rightarrow> if x = 0 then b else x)"

definition toVectorQueryResult :: "ScoredRecord \<Rightarrow> VectorQueryResult" where
  "toVectorQueryResult m =
     (let metadata = sr_metadata m in
      \<lparr>vqr_id = sr_id m,
       vqr_score = or_number (sr_score m) 0,
       vqr_metadata =
         \<lparr>meta_type = or_string (Option.bind metadata rm_type) ''resume'',
          meta_id = or_string (Option.bind metadata rm_id) (sr_id m),
          meta_skills = (case Option.bind metadata rm_skills of None \<Rightarrow> [] | Some ss \<Rightarrow> ss),
          meta_title = Option.bind metadata rm_title\<rparr>\<rparr>)"

definition findSimilar ::
  "env \<Rightarrow> embedding_vec \<Rightarrow> real option \<Rightarrow> string option \<Rightarrow> world
     \<Rightarrow> (error + VectorQueryResult list) \<times> world" where
  "findSimilar env embedding topK filterType w =
     (case initializeIndex env w of
        (Inl e, w1) \<Rightarrow> (Inl e, w1)
      | (Inr _, w1) \<Rightarrow>
          (let w2 = record_event (Pinecone_query embedding topK filterType) w1 in
           case pinecone_query env (events w1) embedding topK filterType of
             Inl e \<Rightarrow> (Inl (Error ''Failed to search vector database''), w2)
           | Inr results_matches \<Rightarrow>
               (Inr (map toVectorQueryResult
                      (case results_matches of None \<Rightarrow> [] | Some ms \<Rightarrow> ms)), w2)))"

text \<open>
  Lines 205 and 206: each of the five operations rounds its result to binary64. The
  score is a finite binary64 value (it is read from the index's answer, and \<open>|| 0\<close> has
  replaced a missing one).
\<close>

definition calculateSimilarityPercentage :: "real \<Rightarrow> number" where
  "calculateSimilarityPercentage score =
     (let percentage = number_times (number_divide (number_plus (Num score) 1) 2) 100
      in number_divide (Math_round (number_times percentage 10)) 10)"

definition deleteVector :: "env \<Rightarrow> string \<Rightarrow> world \<Rightarrow> (error + unit) \<times> world" where
  "deleteVector env vectorId w =
     (case initializeIndex env w of
        (Inl e, w1) \<Rightarrow> (Inl e, w1)
      | (Inr _, w1) \<Rightarrow>
          (let w2 = record_event (Pinecone_deleteOne vectorId) w1 in
           case pinecone_deleteOne env (events w1) vectorId of
             Some e \<Rightarrow> (Inr (), w2)
           | None \<Rightarrow> (Inr (), w2\<lparr>vectors := filter (\<lambda>v. pr_id v \<noteq> vectorId) (vectors w2)\<rparr>)))"

section \<open>AIService: the calls of the models\<close>

definition extractSkills :: "env \<Rightarrow> string \<Rightarrow> world \<Rightarrow> (error + ExtractedSkills) \<times> world" where
  "extractSkills env text w =
     (let w1 = record_event (OpenAI_extract (take 8000 text)) w in
      case openai_extract env (events w) (take 8000 text) of
        Inl e \<Rightarrow> (Inl (Wrapped ''Failed to extract skills: '' e), w1)
      | Inr parsed \<Rightarrow>
          (case ExtractedSkillsSchema_parse parsed of
             Inl issues \<Rightarrow> (Inl (Wrapped ''Failed to extract skills: '' (ZodError issues)), w1)
           | Inr validated \<Rightarrow> (Inr validated, w1)))"

definition generateEmbedding :: "env \<Rightarrow> string \<Rightarrow> world \<Rightarrow> (error + embedding_vec) \<times> world" where
  "generateEmbedding env text w =
     (let truncatedText = take 8000 text;
          w1 = record_event (OpenAI_embedding truncatedText) w
      in case openai_embedding env (events w) truncatedText of
           Inl e \<Rightarrow> (Inl (Wrapped ''Failed to generate embedding: '' e), w1)
         | Inr embedding \<Rightarrow> (Inr embedding, w1))"

definition getDefaultQuestions :: "string \<Rightarrow> json list" where
  "getDefaultQuestions title =
     [JStr (''Tell me about your experience relevant to this '' @ title @ '' role.''),
      JStr ''Describe a challenging project you worked on and how you overcame obstacles.'',
      JStr ''How do you stay updated with the latest technologies in your field?'',
      JStr ''Can you walk me through your problem-solving process?'',
      JStr ''Where do you see yourself in 5 years?'']"

text \<open>\<open>Array.isArray(parsed) ? parsed : parsed[key]\<close>, when that is an array.\<close>

definition array_or_prop :: "json \<Rightarrow> string \<Rightarrow> json list option" where
  "array_or_prop parsed key =
     (case parsed of
        JArr xs \<Rightarrow> Some xs
      | _ \<Rightarrow> (case get_prop parsed key of Some (JArr xs) \<Rightarrow> Some xs | _ \<Rightarrow> None))"

definition generateInterviewQuestions ::
  "env \<Rightarrow> SkillGap \<Rightarrow> string \<Rightarrow> string list \<Rightarrow> world \<Rightarrow> json list \<times> world" where
  "generateInterviewQuestions env skillGaps title matchedSkills w =
     (let w1 = record_event (OpenAI_questions title skillGaps matchedSkills) w in
      case openai_questions env (events w) title skillGaps matchedSkills of
        Inl e \<Rightarrow> (getDefaultQuestions title, w1)
      | Inr parsed \<Rightarrow>
          (case array_or_prop parsed ''questions'' of
             None \<Rightarrow> (getDefaultQuestions title, w1)
           | Some questions \<Rightarrow> (take 7 questions, w1)))"

fun join :: "string \<Rightarrow> string list \<Rightarrow> string" where
  "join sep [] = []"
| "join sep [x] = x"
| "join sep (x # y # ys) = x @ sep @ join sep (y # ys)"

definition getDefaultRecommendations :: "string list \<Rightarrow> json list" where
  "getDefaultRecommendations missingSkills =
     (if length missingSkills > 0
      then [JStr (''Focus on learning: '' @ join '', '' (take 3 missingSkills))]
      else [])
     @ [JStr ''Consider taking online courses to strengthen your technical skills.'',
        JStr ''Build side projects to gain practical experience.'',
        JStr ''Contribute to open-source projects in your area of interest.'']"

definition generateRecommendations ::
  "env \<Rightarrow> SkillGap \<Rightarrow> string \<Rightarrow> world \<Rightarrow> json list \<times> world" where
  "generateRecommendations env skillGaps title w =
     (if length (missing skillGaps) = 0 \<and> length (partial skillGaps) = 0
      then ([JStr ''Great match! Your skills align well with this position.''], w)
      else
        (let w1 = record_event (OpenAI_recommendations title skillGaps) w in
         case openai_recommendations env (events w) title skillGaps of
           Inl e \<Rightarrow> (getDefaultRecommendations (missing skillGaps), w1)
         | Inr parsed \<Rightarrow>
             (case array_or_prop parsed ''recommendations'' of
                None \<Rightarrow> (getDefaultRecommendations (missing skillGaps), w1)
              | Some recommendations \<Rightarrow> (take 5 recommendations, w1))))"

section \<open>The record store\<close>

text \<open>
  Modelled from the spec: the schema of the record store (the tables behind
  \<open>prisma.resume\<close>, \<open>prisma.jobDescription\<close> and \<open>prisma.jobMatch\<close>) is not among the
  sources. The spec describes a key-value record store with unique identifiers, in which
  deleting a resume or a job cascades to its matches and a match is created or replaced
  by the unique pair \<open>(resumeId, jobId)\<close>; the handlers' own comments say the same of the
  cascade, and \<open>matchJob\<close> addresses the match by \<open>resumeId_jobId\<close>.

  Below are the calls the handlers make. A new row gets the identifier the store
  generates; a row whose identifier is taken is refused (\<open>P2002\<close>), a row to update or
  delete that does not exist is reported (\<open>P2025\<close>).
\<close>

definition resume_findUnique :: "string \<Rightarrow> world \<Rightarrow> Resume option \<times> world" where
  "resume_findUnique ident w =
     (find (\<lambda>r. resume_id r = ident) (resumes w),
      record_event (Prisma ''resume.findUnique'') w)"

definition jobDescription_findUnique :: "string \<Rightarrow> world \<Rightarrow> JobDescription option \<times> world" where
  "jobDescription_findUnique ident w =
     (find (\<lambda>j. job_id j = ident) (jobs w),
      record_event (Prisma ''jobDescription.findUnique'') w)"

definition jobDescription_create ::
  "env \<Rightarrow> string \<Rightarrow> string option \<Rightarrow> string \<Rightarrow> ExtractedSkills \<Rightarrow> world
     \<Rightarrow> (error + JobDescription) \<times> world" where
  "jobDescription_create env title companyOrNull description requiredSkills w =
     (let w1 = record_event (Prisma ''jobDescription.create'') w;
          job = \<lparr>job_id = prisma_cuid env (events w), job_title = title, job_company = companyOrNull,
                 job_description = description, job_requiredSkills = requiredSkills,
                 job_vectorId = None\<rparr>
      in if job_id job \<in> set (map job_id (jobs w)) then (Inl (PrismaError ''P2002''), w1)
         else (Inr job, w1\<lparr>jobs := jobs w1 @ [job]\<rparr>))"

definition jobDescription_update ::
  "string \<Rightarrow> string \<Rightarrow> world \<Rightarrow> (error + unit) \<times> world" where
  "jobDescription_update ident vectorId w =
     (let w1 = record_event (Prisma ''jobDescription.update'') w in
      if ident \<in> set (map job_id (jobs w))
      then (Inr (), w1\<lparr>jobs := map (\<lambda>j. if job_id j = ident
                                         then j\<lparr>job_vectorId := Some vectorId\<rparr> else j)
                                   (jobs w1)\<rparr>)
      else (Inl (PrismaError ''P2025''), w1))"

definition jobMatch_upsert ::
  "env \<Rightarrow> string \<Rightarrow> string \<Rightarrow> number \<Rightarrow> SkillGap \<Rightarrow> string list \<Rightarrow> json list \<Rightarrow> json list
     \<Rightarrow> world \<Rightarrow> (error + JobMatch) \<times> world" where
  "jobMatch_upsert env rid jid score gaps matchedSkills questions recommendations w =
     (let w1 = record_event (Prisma ''jobMatch.upsert'') w in
      case find (\<lambda>m. match_resumeId m = rid \<and> match_jobId m = jid) (matches w) of
        Some old \<Rightarrow>
          (let m = old\<lparr>match_similarityScore := score, match_skillGaps := gaps,
                       match_matchedSkills := matchedSkills,
                       match_interviewQuestions := questions,
                       match_recommendations := recommendations\<rparr>
           in (Inr m,
               w1\<lparr>matches := map (\<lambda>x. if match_resumeId x = rid \<and> match_jobId x = jid
                                        then m else x) (matches w1)\<rparr>))
      | None \<Rightarrow>
          (let m = \<lparr>match_id = prisma_cuid env (events w), match_resumeId = rid,
                    match_jobId = jid, match_similarityScore = score, match_skillGaps = gaps,
                    match_matchedSkills = matchedSkills, match_interviewQuestions = questions,
                    match_recommendations = recommendations\<rparr>
           in if match_id m \<in> set (map match_id (matches w))
              then (Inl (PrismaError ''P2002''), w1)
              else (Inr m, w1\<lparr>matches := matches w1 @ [m]\<rparr>)))"

definition resume_delete :: "string \<Rightarrow> world \<Rightarrow> (error + unit) \<times> world" where
  "resume_delete ident w =
     (let w1 = record_event (Prisma ''resume.delete'') w in
      if ident \<in> set (map resume_id (resumes w))
      then (Inr (), w1\<lparr>resumes := filter (\<lambda>r. resume_id r \<noteq> ident) (resumes w1),
                        matches := filter (\<lambda>m. match_resumeId m \<noteq> ident) (matches w1)\<rparr>)
      else (Inl (PrismaError ''P2025''), w1))"

definition jobDescription_delete :: "string \<Rightarrow> world \<Rightarrow> (error + unit) \<times> world" where
  "jobDescription_delete ident w =
     (let w1 = record_event (Prisma ''jobDescription.delete'') w in
      if ident \<in> set (map job_id (jobs w))
      then (Inr (), w1\<lparr>jobs := filter (\<lambda>j. job_id j \<noteq> ident) (jobs w1),
                        matches := filter (\<lambda>m. match_jobId m \<noteq> ident) (matches w1)\<rparr>)
      else (Inl (PrismaError ''P2025''), w1))"

text \<open>\<open>resume.findMany\<close> with \<open>where: {id: {in: ids}}\<close> and the handler's \<open>select\<close>.\<close>

record ResumeSelect =
  sel_id :: string
  sel_fileName :: string
  sel_extractedSkills :: ExtractedSkills

definition resume_findMany_in :: "string list \<Rightarrow> world \<Rightarrow> ResumeSelect list \<times> world" where
  "resume_findMany_in ids w =
     (map (\<lambda>r. \<lparr>sel_id = resume_id r, sel_fileName = resume_fileName r,
                 sel_extractedSkills = resume_extractedSkills r\<rparr>)
        (filter (\<lambda>r. resume_id r \<in> set ids) (resumes w)),
      record_event (Prisma ''resume.findMany'') w)"

section \<open>The handlers\<close>

text \<open>
  A handler either sends a response (status and body) or passes an error to \<open>next\<close>.
  The body of a validation failure carries the message of the first issue.
\<close>

record JobMatchResponse =
  res_id :: string
  res_resumeId :: string
  res_jobId :: string
  res_jobTitle :: string
  res_similarityScore :: number
  res_skillGaps :: SkillGap
  res_matchedSkills :: "string list"
  res_interviewQuestions :: "json list"
  res_recommendations :: "json list"

record Candidate =
  cand_resume :: "ResumeSelect option"
  cand_similarityScore :: number

datatype message = Text string | MessageOf ZodIssue

datatype payload =
    Failure message
  | MatchCreated JobMatchResponse
  | CandidateList "Candidate list"
  | Done string

datatype outcome = Response nat payload | NextError error

text \<open>Lines 94 to 98 of \<open>matchJob\<close>: the score of the job's own vector among the results.\<close>

definition matchJob_similarityScore :: "string \<Rightarrow> VectorQueryResult list \<Rightarrow> number" where
  "matchJob_similarityScore jobVectorId similarResults =
     (let matchingResult = find (\<lambda>r. vqr_id r = jobVectorId) similarResults;
          rawScore = or_number (map_option vqr_score matchingResult) 0
      in calculateSimilarityPercentage rawScore)"

definition matchJob :: "env \<Rightarrow> json \<Rightarrow> world \<Rightarrow> outcome \<times> world" where
  "matchJob env body w =
     (case JobMatchRequestSchema_safeParse body of
        Inl issues \<Rightarrow>
          (case issues of
             [] \<Rightarrow> (NextError TypeError, w)
           | issue # _ \<Rightarrow> (Response 400 (Failure (MessageOf issue)), w))
      | Inr req \<Rightarrow>
     (case resume_findUnique (resumeId req) w of
        (None, w1) \<Rightarrow> (Response 404 (Failure (Text ''Resume not found'')), w1)
      | (Some resume, w1) \<Rightarrow>
     (case extractSkills env (jobDescription req) w1 of
        (Inl e, w2) \<Rightarrow> (NextError e, w2)
      | (Inr jobSkills, w2) \<Rightarrow>
     (case generateEmbedding env (jobDescription req) w2 of
        (Inl e, w3) \<Rightarrow> (NextError e, w3)
      | (Inr jobEmbedding, w3) \<Rightarrow>
     (case jobDescription_create env (jobTitle req)
             (case company req of None \<Rightarrow> None | Some c \<Rightarrow> if c = [] then None else Some c)
             (jobDescription req) jobSkills w3 of
        (Inl e, w4) \<Rightarrow> (NextError e, w4)
      | (Inr job, w4) \<Rightarrow>
     (case upsertJob env (job_id job) jobEmbedding (combinedSkills jobSkills) (jobTitle req) w4 of
        (Inl e, w5) \<Rightarrow> (NextError e, w5)
      | (Inr jobVectorId, w5) \<Rightarrow>
     (case jobDescription_update (job_id job) jobVectorId w5 of
        (Inl e, w6) \<Rightarrow> (NextError e, w6)
      | (Inr _, w6) \<Rightarrow>
     (case generateEmbedding env (resume_rawText resume) w6 of
        (Inl e, w7) \<Rightarrow> (NextError e, w7)
      | (Inr resumeEmbedding, w7) \<Rightarrow>
     (case findSimilar env resumeEmbedding (Some 10) (Some ''job'') w7 of
        (Inl e, w8) \<Rightarrow> (NextError e, w8)
      | (Inr similarResults, w8) \<Rightarrow>
     (let similarityScore = matchJob_similarityScore jobVectorId similarResults;
          resumeSkills = resume_extractedSkills resume;
          skillGaps = analyzeSkillGaps (String_toLowerCase env) resumeSkills jobSkills
      in
      case generateInterviewQuestions env skillGaps (jobTitle req) (matched skillGaps) w8 of
        (interviewQuestions, w9) \<Rightarrow>
     (case generateRecommendations env skillGaps (jobTitle req) w9 of
        (recommendations, w10) \<Rightarrow>
     (case jobMatch_upsert env (resumeId req) (job_id job) similarityScore skillGaps
             (matched skillGaps) interviewQuestions recommendations w10 of
        (Inl e, w11) \<Rightarrow> (NextError e, w11)
      | (Inr m, w11) \<Rightarrow>
          (Response 201
             (MatchCreated
                \<lparr>res_id = match_id m, res_resumeId = resumeId req, res_jobId = job_id job,
                 res_jobTitle = jobTitle req, res_similarityScore = similarityScore,
                 res_skillGaps = skillGaps, res_matchedSkills = matched skillGaps,
                 res_interviewQuestions = interviewQuestions,
                 res_recommendations = recommendations\<rparr>),
           w11)))))))))))))"

text \<open>
  \<open>Math.min(topK, 20)\<close> in \<open>findCandidates\<close>: \<open>topK\<close> is whatever the body holds (5 when
  the property is missing), converted to a number; \<open>None\<close> is \<open>NaN\<close>.
\<close>

definition ToNumber :: "env \<Rightarrow> json \<Rightarrow> real option" where
  "ToNumber env v =
     (case v of
        JNum n \<Rightarrow> Some n
      | JNull \<Rightarrow> Some 0
      | JBool b \<Rightarrow> Some (if b then 1 else 0)
      | _ \<Rightarrow> ToNumber_other env v)"

definition Math_min :: "real option \<Rightarrow> real option \<Rightarrow> real option" where
  "Math_min a b =
     (case (a, b) of (Some x, Some y) \<Rightarrow> Some (min x y) | _ \<Rightarrow> None)"

definition findCandidates :: "env \<Rightarrow> json \<Rightarrow> world \<Rightarrow> outcome \<times> world" where
  "findCandidates env body w =
     (case body of
        JNull \<Rightarrow> (NextError TypeError, w)
      | _ \<Rightarrow>
     (let topK = (case get_prop body ''topK'' of None \<Rightarrow> JNum 5 | Some v \<Rightarrow> v) in
      case get_prop body ''jobDescription'' of
        Some (JStr description) \<Rightarrow>
          (if description = []
           then (Response 400 (Failure (Text ''Job description is required'')), w)
           else
     (case generateEmbedding env description w of
        (Inl e, w1) \<Rightarrow> (NextError e, w1)
      | (Inr jobEmbedding, w1) \<Rightarrow>
     (case findSimilar env jobEmbedding (Math_min (ToNumber env topK) (Some 20))
             (Some ''resume'') w1 of
        (Inl e, w2) \<Rightarrow> (NextError e, w2)
      | (Inr results, w2) \<Rightarrow>
     (let resumeIds = map (\<lambda>r. meta_id (vqr_metadata r)) results in
      case resume_findMany_in resumeIds w2 of
        (found, w3) \<Rightarrow>
          (let candidates =
                 map (\<lambda>result.
                        \<lparr>cand_resume =
                           find (\<lambda>r. sel_id r = meta_id (vqr_metadata result)) found,
                         cand_similarityScore =
                           calculateSimilarityPercentage (vqr_score result)\<rparr>)
                   results
           in (Response 200 (CandidateList candidates), w3))))))
      | _ \<Rightarrow> (Response 400 (Failure (Text ''Job description is required'')), w)))"

text \<open>\<open>if (resume.vectorId)\<close>: a missing and an empty identifier are falsy.\<close>

definition deleteVector_if_set :: "env \<Rightarrow> string option \<Rightarrow> world \<Rightarrow> (error + unit) \<times> world" where
  "deleteVector_if_set env vectorId w =
     (case vectorId of
        None \<Rightarrow> (Inr (), w)
      | Some v \<Rightarrow> if v = [] then (Inr (), w) else deleteVector env v w)"

definition deleteResume :: "env \<Rightarrow> string \<Rightarrow> world \<Rightarrow> outcome \<times> world" where
  "deleteResume env ident w =
     (case resume_findUnique ident w of
        (None, w1) \<Rightarrow> (Response 404 (Failure (Text ''Resume not found'')), w1)
      | (Some resume, w1) \<Rightarrow>
     (case deleteVector_if_set env (resume_vectorId resume) w1 of
        (Inl e, w2) \<Rightarrow> (NextError e, w2)
      | (Inr _, w2) \<Rightarrow>
     (case resume_delete ident w2 of
        (Inl e, w3) \<Rightarrow> (NextError e, w3)
      | (Inr _, w3) \<Rightarrow> (Response 200 (Done ''Resume deleted successfully''), w3))))"

definition deleteJob :: "env \<Rightarrow> string \<Rightarrow> world \<Rightarrow> outcome \<times> world" where
  "deleteJob env ident w =
     (case jobDescription_findUnique ident w of
        (None, w1) \<Rightarrow> (Response 404 (Failure (Text ''Job not found'')), w1)
      | (Some job, w1) \<Rightarrow>
     (case deleteVector_if_set env (job_vectorId job) w1 of
        (Inl e, w2) \<Rightarrow> (NextError e, w2)
      | (Inr _, w2) \<Rightarrow>
     (case jobDescription_delete ident w2 of
        (Inl e, w3) \<Rightarrow> (NextError e, w3)
      | (Inr _, w3) \<Rightarrow> (Response 200 (Done ''Job deleted successfully''), w3))))"

section \<open>Predicates on the state\<close>

text \<open>Two states hold the same rows and vectors: at most the events and the flag differ.\<close>

definition same_store :: "world \<Rightarrow> world \<Rightarrow> bool" where
  "same_store w w' \<longleftrightarrow>
     resumes w' = resumes w \<and> jobs w' = jobs w \<and> matches w' = matches w
     \<and> vectors w' = vectors w"

text \<open>The unique constraint of the match table, and its reference to the job table.\<close>

definition unique_pairs :: "world \<Rightarrow> bool" where
  "unique_pairs w \<longleftrightarrow> distinct (map (\<lambda>m. (match_resumeId m, match_jobId m)) (matches w))"

definition matches_reference_jobs :: "world \<Rightarrow> bool" where
  "matches_reference_jobs w \<longleftrightarrow>
     list_all (\<lambda>m. match_jobId m \<in> set (map job_id (jobs w))) (matches w)"

section \<open>Concrete inputs\<close>

text \<open>A skill profile whose only entries are technical skills.\<close>

definition skills_only :: "string list \<Rightarrow> ExtractedSkills" where
  "skills_only xs =
     \<lparr>technicalSkills = xs, frameworks = [], languages = [], tools = [], softSkills = [],
      yearsOfExperience = None, currentRole = None, education = None,
      certifications = None\<rparr>"

text \<open>The profile read from \<open>{"tools": ["Git"]}\<close>.\<close>

definition git_only :: ExtractedSkills where
  "git_only =
     \<lparr>technicalSkills = [], frameworks = [], languages = [], tools = [''Git''],
      softSkills = [], yearsOfExperience = None, currentRole = None, education = None,
      certifications = None\<rparr>"

text \<open>
  Collaborators that answer every call: the extraction finds Python and AWS, the index
  exists and refuses a query for no or zero results, a query filtered to jobs finds
  nothing, a query filtered to resumes finds one vector whose resume is not in the store, deleting a vector fails, and a new
  identifier is as long as the number of events so far.
\<close>

definition demo_env :: env where
  "demo_env =
     \<lparr>INDEX_NAME = ''resume-embeddings'',
      String_toLowerCase = ascii_toLowerCase,
      ToNumber_other = (\<lambda>v. None),
      openai_extract =
        (\<lambda>evs text. Inr (JObj [(''technicalSkills'', JArr [JStr ''Python'', JStr ''AWS''])])),
      openai_embedding = (\<lambda>evs text. Inr [1, 0]),
      openai_questions =
        (\<lambda>evs title gaps ms. Inr (JObj [(''questions'', JArr [JStr ''Why Python?''])])),
      openai_recommendations = (\<lambda>evs title gaps. Inl (Error ''No response from OpenAI'')),
      pinecone_listIndexes = (\<lambda>evs. Inr (Some [''resume-embeddings''])),
      pinecone_createIndex = (\<lambda>evs. None),
      pinecone_waitReady = (\<lambda>evs. None),
      pinecone_upsert = (\<lambda>evs r. None),
      pinecone_query =
        (\<lambda>evs v k f.
           if k = None \<or> k = Some 0 then Inl (Error ''topK must be a positive integer'')
           else if f = Some ''resume''
           then Inr (Some [\<lparr>sr_id = ''resume_gone'', sr_score = Some (1 / 2),
                             sr_metadata = Some \<lparr>rm_type = Some ''resume'', rm_id = Some ''gone'',
                                                 rm_skills = Some [], rm_title = None\<rparr>\<rparr>])
           else Inr (Some [])),
      pinecone_deleteOne = (\<lambda>evs v. Some (Error ''index unavailable'')),
      prisma_cuid = (\<lambda>evs. replicate (length evs) CHR ''c'')\<rparr>"

definition demo_resume :: Resume where
  "demo_resume =
     \<lparr>resume_id = ''r1'', resume_fileName = ''cv.pdf'',
      resume_rawText = ''Python developer, Docker'',
      resume_extractedSkills = skills_only [''Python'', ''Docker''],
      resume_vectorId = Some ''resume_r1''\<rparr>"

definition demo_world :: world where
  "demo_world =
     \<lparr>resumes = [demo_resume], jobs = [], matches = [],
      vectors = [\<lparr>pr_id = ''resume_r1'', pr_values = [1, 0],
                  pr_metadata = \<lparr>meta_type = ''resume'', meta_id = ''r1'',
                                  meta_skills = [''Python'', ''Docker''],
                                  meta_title = Some []\<rparr>\<rparr>],
      indexInitialized = False, events = []\<rparr>"

definition demo_body :: json where
  "demo_body =
     JObj [(''resumeId'', JStr ''r1''), (''jobTitle'', JStr ''Backend Engineer''),
           (''jobDescription'',
            JStr ''We are hiring a backend engineer who knows Python and AWS.'')]"

text \<open>A request whose job description has 49 characters.\<close>

definition short_body :: json where
  "short_body =
     JObj [(''resumeId'', JStr ''r1''), (''jobTitle'', JStr ''Backend Engineer''),
           (''jobDescription'', JStr ''We are hiring a backend engineer; Python and AWS.'')]"

text \<open>The state and the response after \<open>demo_body\<close> has been matched once in \<open>demo_world\<close>.\<close>

definition demo_gaps :: SkillGap where
  "demo_gaps = \<lparr>missing = [''AWS''], matched = [''Python''], partial = []\<rparr>"

definition demo_recommendations :: "json list" where
  "demo_recommendations =
     [JStr ''Focus on learning: AWS'',
      JStr ''Consider taking online courses to strengthen your technical skills.'',
      JStr ''Build side projects to gain practical experience.'',
      JStr ''Contribute to open-source projects in your area of interest.'']"

definition demo_job :: JobDescription where
  "demo_job =
     \<lparr>job_id = ''ccc'', job_title = ''Backend Engineer'', job_company = None,
      job_description = ''We are hiring a backend engineer who knows Python and AWS.'',
      job_requiredSkills = skills_only [''Python'', ''AWS''],
      job_vectorId = Some ''job_ccc''\<rparr>"

definition demo_job_vector :: PineconeRecord where
  "demo_job_vector =
     \<lparr>pr_id = ''job_ccc'', pr_values = [1, 0],
      pr_metadata = \<lparr>meta_type = ''job'', meta_id = ''ccc'',
                      meta_skills = [''Python'', ''AWS''],
                      meta_title = Some ''Backend Engineer''\<rparr>\<rparr>"

definition demo_match :: JobMatch where
  "demo_match =
     \<lparr>match_id = ''ccccccccccc'', match_resumeId = ''r1'', match_jobId = ''ccc'',
      match_similarityScore = Num 50, match_skillGaps = demo_gaps,
      match_matchedSkills = [''Python''],
      match_interviewQuestions = [JStr ''Why Python?''],
      match_recommendations = demo_recommendations\<rparr>"

definition demo_response :: JobMatchResponse where
  "demo_response =
     \<lparr>res_id = ''ccccccccccc'', res_resumeId = ''r1'', res_jobId = ''ccc'',
      res_jobTitle = ''Backend Engineer'', res_similarityScore = Num 50,
      res_skillGaps = demo_gaps, res_matchedSkills = [''Python''],
      res_interviewQuestions = [JStr ''Why Python?''],
      res_recommendations = demo_recommendations\<rparr>"

definition demo_world_1 :: world where
  "demo_world_1 =
     \<lparr>resumes = [demo_resume], jobs = [demo_job], matches = [demo_match],
      vectors = vectors demo_world @ [demo_job_vector],
      indexInitialized = True,
      events =
        [Prisma ''resume.findUnique'',
         OpenAI_extract ''We are hiring a backend engineer who knows Python and AWS.'',
         OpenAI_embedding ''We are hiring a backend engineer who knows Python and AWS.'',
         Prisma ''jobDescription.create'',
         Pinecone_listIndexes,
         Pinecone_upsert demo_job_vector,
         Prisma ''jobDescription.update'',
         OpenAI_embedding ''Python developer, Docker'',
         Pinecone_query [1, 0] (Some 10) (Some ''job''),
         OpenAI_questions ''Backend Engineer'' demo_gaps [''Python''],
         OpenAI_recommendations ''Backend Engineer'' demo_gaps,
         Prisma ''jobMatch.upsert'']\<rparr>"

text \<open>
  The same request matched a second time, in \<open>demo_world_1\<close>: the match and the response
  of the second call, and the state after it.
\<close>

definition demo_match_2 :: JobMatch where
  "demo_match_2 =
     \<lparr>match_id = ''cccccccccccccccccccccc'', match_resumeId = ''r1'',
      match_jobId = ''ccccccccccccccc'',
      match_similarityScore = Num 50, match_skillGaps = demo_gaps,
      match_matchedSkills = [''Python''],
      match_interviewQuestions = [JStr ''Why Python?''],
      match_recommendations = demo_recommendations\<rparr>"

definition demo_response_2 :: JobMatchResponse where
  "demo_response_2 =
     \<lparr>res_id = ''cccccccccccccccccccccc'', res_resumeId = ''r1'',
      res_jobId = ''ccccccccccccccc'',
      res_jobTitle = ''Backend Engineer'', res_similarityScore = Num 50,
      res_skillGaps = demo_gaps, res_matchedSkills = [''Python''],
      res_interviewQuestions = [JStr ''Why Python?''],
      res_recommendations = demo_recommendations\<rparr>"

definition demo_world_2 :: world where
  "demo_world_2 = snd (matchJob demo_env demo_body demo_world_1)"



definition dangling_candidate :: Candidate where
  "dangling_candidate = \<lparr>cand_resume = None, cand_similarityScore = Num 75\<rparr>"

definition dangling_hit :: ScoredRecord where
  "dangling_hit =
     \<lparr>sr_id = ''resume_gone'', sr_score = Some (1 / 2),
      sr_metadata = Some \<lparr>rm_type = Some ''resume'', rm_id = Some ''gone'',
                          rm_skills = Some [], rm_title = None\<rparr>\<rparr>"

definition candidates_events :: "real \<Rightarrow> event list" where
  "candidates_events k =
     [OpenAI_embedding ''Backend engineer, Python'', Pinecone_listIndexes,
      Pinecone_query [1, 0] (Some k) (Some ''resume'')]"

definition candidates_world :: "real \<Rightarrow> world" where
  "candidates_world k =
     demo_world\<lparr>indexInitialized := True,
                events := candidates_events k @ [Prisma ''resume.findMany'']\<rparr>"

definition candidates_body :: json where
  "candidates_body = JObj [(''jobDescription'', JStr ''Backend engineer, Python'')]"


text \<open>
  An index that holds other vectors as well: a query filtered to jobs finds the vector of
  another job, and a query filtered to resumes finds the vector of the resume \<open>r1\<close> and
  then the vector of a resume that is not in the store. The other collaborators are
  those of \<open>demo_env\<close>.
\<close>

definition other_job_hit :: ScoredRecord where
  "other_job_hit =
     \<lparr>sr_id = ''job_other'', sr_score = Some 1,
      sr_metadata = Some \<lparr>rm_type = Some ''job'', rm_id = Some ''other'',
                          rm_skills = Some [''Python''], rm_title = Some ''Data Engineer''\<rparr>\<rparr>"

definition r1_hit :: ScoredRecord where
  "r1_hit =
     \<lparr>sr_id = ''resume_r1'', sr_score = Some 1,
      sr_metadata = Some \<lparr>rm_type = Some ''resume'', rm_id = Some ''r1'',
                          rm_skills = Some [''Python'', ''Docker''], rm_title = None\<rparr>\<rparr>"

definition busy_env :: env where
  "busy_env =
     demo_env\<lparr>pinecone_query :=
       (\<lambda>evs v k f. if f = Some ''resume'' then Inr (Some [r1_hit, dangling_hit])
                     else Inr (Some [other_job_hit]))\<rparr>"

definition r1_candidate :: Candidate where
  "r1_candidate =
     \<lparr>cand_resume = Some \<lparr>sel_id = ''r1'', sel_fileName = ''cv.pdf'',
                          sel_extractedSkills = skills_only [''Python'', ''Docker'']\<rparr>,
      cand_similarityScore = Num 100\<rparr>"

text \<open>The request read from \<open>demo_body\<close>, and the job row as it is created.\<close>

definition demo_request :: JobMatchRequest where
  "demo_request =
     \<lparr>resumeId = ''r1'', jobTitle = ''Backend Engineer'',
      jobDescription = ''We are hiring a backend engineer who knows Python and AWS.'',
      company = None\<rparr>"

definition demo_job_created :: JobDescription where
  "demo_job_created = demo_job\<lparr>job_vectorId := None\<rparr>"

section \<open>Properties of the skill reconciler\<close>

lemma set_new_Set: "set (new_Set xs) = set xs"
  by (induction xs) auto

lemma analyzeSkillGaps_loop_matched:
  "matched (analyzeSkillGaps_loop lc rs js g) =
     matched g @ filter (\<lambda>s. lc s \<in> set rs) js"
  by (induction js arbitrary: g) (simp_all add: Let_def)

lemma analyzeSkillGaps_loop_partial:
  "partial (analyzeSkillGaps_loop lc rs js g) =
     partial g @ filter (\<lambda>s. lc s \<notin> set rs \<and>
        (\<exists>x\<in>set rs. sublist (lc s) x \<or> sublist x (lc s))) js"
  by (induction js arbitrary: g)
     (simp_all add: Let_def list_ex_iff String_includes_def)

lemma analyzeSkillGaps_loop_missing:
  "missing (analyzeSkillGaps_loop lc rs js g) =
     missing g @ filter (\<lambda>s. lc s \<notin> set rs \<and>
        \<not> (\<exists>x\<in>set rs. sublist (lc s) x \<or> sublist x (lc s))) js"
  by (induction js arbitrary: g)
     (simp_all add: Let_def list_ex_iff String_includes_def)

lemma filter_by_position:
  "filter P js = map ((!) js) (filter (\<lambda>i. P (js ! i)) [0..<length js])"
proof -
  have "filter P js = filter P (map ((!) js) [0..<length js])"
    by (simp add: map_nth)
  also have "\<dots> = map ((!) js) (filter (P \<circ> (!) js) [0..<length js])"
    by (rule filter_map)
  finally show ?thesis
    by (simp add: comp_def)
qed

lemma three_way_filter_length:
  "length (filter (\<lambda>x. A x) xs) + length (filter (\<lambda>x. \<not> A x \<and> B x) xs)
     + length (filter (\<lambda>x. \<not> A x \<and> \<not> B x) xs) = length xs"
  by (induction xs) auto

lemma three_way_filter_mset:
  "mset (filter (\<lambda>x. A x) xs) + mset (filter (\<lambda>x. \<not> A x \<and> B x) xs)
     + mset (filter (\<lambda>x. \<not> A x \<and> \<not> B x) xs) = mset xs"
  by (induction xs) auto

lemma analyzeSkillGaps_filters:
  "matched (analyzeSkillGaps lc r j) =
     filter (\<lambda>s. lc s \<in> lc ` set (combinedSkills r)) (combinedSkills j)"
  "partial (analyzeSkillGaps lc r j) =
     filter (\<lambda>s. lc s \<notin> lc ` set (combinedSkills r) \<and>
        (\<exists>x\<in>lc ` set (combinedSkills r). sublist (lc s) x \<or> sublist x (lc s))) (combinedSkills j)"
  "missing (analyzeSkillGaps lc r j) =
     filter (\<lambda>s. lc s \<notin> lc ` set (combinedSkills r) \<and>
        \<not> (\<exists>x\<in>lc ` set (combinedSkills r). sublist (lc s) x \<or> sublist x (lc s))) (combinedSkills j)"
  by (simp_all add: analyzeSkillGaps_def Let_def analyzeSkillGaps_loop_matched
        analyzeSkillGaps_loop_partial analyzeSkillGaps_loop_missing set_new_Set)

text \<open>
  C1. The result of \<open>analyzeSkillGaps\<close> partitions the job's combined skill list
  (technical skills, then frameworks, then tools, duplicates kept) by position: the
  three lists together are as long as the job list and hold the same entries, every
  position of the job list is taken by exactly one of the three lists, and each list
  reads its positions in increasing order.
\<close>

theorem analyzeSkillGaps_partition:
  "let g = analyzeSkillGaps toLowerCase resumeSkills jobSkills;
       js = technicalSkills jobSkills @ frameworks jobSkills @ tools jobSkills
   in length (matched g) + length (partial g) + length (missing g) = length js
      \<and> mset (matched g) + mset (partial g) + mset (missing g) = mset js
      \<and> (\<exists>ms ps xs.
            matched g = map ((!) js) ms \<and> partial g = map ((!) js) ps
          \<and> missing g = map ((!) js) xs
          \<and> sorted_wrt (<) ms \<and> sorted_wrt (<) ps \<and> sorted_wrt (<) xs
          \<and> set ms \<union> set ps \<union> set xs = {..<length js}
          \<and> set ms \<inter> set ps = {} \<and> set ms \<inter> set xs = {} \<and> set ps \<inter> set xs = {})"
proof -
  define js where "js = technicalSkills jobSkills @ frameworks jobSkills @ tools jobSkills"
  define R where "R = toLowerCase ` set (technicalSkills resumeSkills @ frameworks resumeSkills
                                          @ tools resumeSkills)"
  define A where "A = (\<lambda>s. toLowerCase s \<in> R)"
  define B where "B = (\<lambda>s. \<exists>x\<in>R. sublist (toLowerCase s) x \<or> sublist x (toLowerCase s))"
  define g where "g = analyzeSkillGaps toLowerCase resumeSkills jobSkills"
  have m: "matched g = filter (\<lambda>s. A s) js"
    and p: "partial g = filter (\<lambda>s. \<not> A s \<and> B s) js"
    and x: "missing g = filter (\<lambda>s. \<not> A s \<and> \<not> B s) js"
    unfolding g_def js_def A_def B_def R_def
    by (simp_all add: analyzeSkillGaps_filters [unfolded combinedSkills_def])
  have len: "length (matched g) + length (partial g) + length (missing g) = length js"
    unfolding m p x by (rule three_way_filter_length)
  have ms: "mset (matched g) + mset (partial g) + mset (missing g) = mset js"
    unfolding m p x by (rule three_way_filter_mset)
  define ms where "ms = filter (\<lambda>i. A (js ! i)) [0..<length js]"
  define ps where "ps = filter (\<lambda>i. \<not> A (js ! i) \<and> B (js ! i)) [0..<length js]"
  define xs where "xs = filter (\<lambda>i. \<not> A (js ! i) \<and> \<not> B (js ! i)) [0..<length js]"
  have e1: "matched g = map ((!) js) ms" unfolding m ms_def by (rule filter_by_position)
  have e2: "partial g = map ((!) js) ps" unfolding p ps_def by (rule filter_by_position)
  have e3: "missing g = map ((!) js) xs" unfolding x xs_def by (rule filter_by_position)
  have s: "sorted_wrt (<) ms" "sorted_wrt (<) ps" "sorted_wrt (<) xs"
    unfolding ms_def ps_def xs_def by (simp_all add: sorted_wrt_filter)
  have u: "set ms \<union> set ps \<union> set xs = {..<length js}"
    unfolding ms_def ps_def xs_def by auto
  have d: "set ms \<inter> set ps = {}" "set ms \<inter> set xs = {}" "set ps \<inter> set xs = {}"
    unfolding ms_def ps_def xs_def by auto
  have "\<exists>ms ps xs.
            matched g = map ((!) js) ms \<and> partial g = map ((!) js) ps
          \<and> missing g = map ((!) js) xs
          \<and> sorted_wrt (<) ms \<and> sorted_wrt (<) ps \<and> sorted_wrt (<) xs
          \<and> set ms \<union> set ps \<union> set xs = {..<length js}
          \<and> set ms \<inter> set ps = {} \<and> set ms \<inter> set xs = {} \<and> set ps \<inter> set xs = {}"
    using e1 e2 e3 s u d by blast
  with len ms show ?thesis unfolding g_def js_def Let_def by blast
qed

theorem analyzeSkillGaps_partition_witness:
  "(let g = analyzeSkillGaps ascii_toLowerCase (skills_only [''Python'', ''Docker''])
              (skills_only [''Python'', ''AWS'', ''Django''])
    in length (matched g) + length (partial g) + length (missing g) = 3
       \<and> mset (matched g) + mset (partial g) + mset (missing g)
           = {#''Python'', ''AWS'', ''Django''#})"
  using analyzeSkillGaps_partition [of ascii_toLowerCase "skills_only [''Python'', ''Docker'']"
      "skills_only [''Python'', ''AWS'', ''Django'']"]
  by (simp add: Let_def skills_only_def)

text \<open>
  C2. A job skill whose lower-cased form is among the lower-cased resume skills goes to
  \<open>matched\<close>, whatever else contains it; otherwise, if a lower-cased resume skill is a
  substring of it or it is a substring of one, to \<open>partial\<close>; otherwise to \<open>missing\<close>.
  Resume skills React against job skills React.js give \<open>partial = [React.js]\<close> and
  nothing matched.
\<close>

theorem analyzeSkillGaps_rule:
  "(let R = toLowerCase ` set (technicalSkills resumeSkills @ frameworks resumeSkills
                                 @ tools resumeSkills);
        g = analyzeSkillGaps toLowerCase resumeSkills jobSkills;
        js = technicalSkills jobSkills @ frameworks jobSkills @ tools jobSkills;
        exact = (\<lambda>s. toLowerCase s \<in> R);
        part = (\<lambda>s. \<exists>r. r \<in> R \<and> (sublist r (toLowerCase s) \<or> sublist (toLowerCase s) r))
    in matched g = filter exact js
       \<and> partial g = filter (\<lambda>s. \<not> exact s \<and> part s) js
       \<and> missing g = filter (\<lambda>s. \<not> exact s \<and> \<not> part s) js)
   \<and> analyzeSkillGaps ascii_toLowerCase (skills_only [''React'']) (skills_only [''React.js''])
       = \<lparr>missing = [], matched = [], partial = [''React.js'']\<rparr>"
proof -
  have ex: "analyzeSkillGaps ascii_toLowerCase (skills_only [''React'']) (skills_only [''React.js''])
       = \<lparr>missing = [], matched = [], partial = [''React.js'']\<rparr>"
    by (simp add: analyzeSkillGaps_def skills_only_def combinedSkills_def ascii_toLowerCase_def
          String_includes_def sublist_code prefix_code)
  let ?R = "toLowerCase ` set (technicalSkills resumeSkills @ frameworks resumeSkills
                                 @ tools resumeSkills)"
  let ?js = "technicalSkills jobSkills @ frameworks jobSkills @ tools jobSkills"
  let ?g = "analyzeSkillGaps toLowerCase resumeSkills jobSkills"
  have eq: "(\<exists>r. r \<in> ?R \<and> (sublist r (toLowerCase s) \<or> sublist (toLowerCase s) r))
            = (\<exists>x\<in>?R. sublist (toLowerCase s) x \<or> sublist x (toLowerCase s))" for s
    by blast
  have m: "matched ?g = filter (\<lambda>s. toLowerCase s \<in> ?R) ?js"
    by (rule analyzeSkillGaps_filters(1) [unfolded combinedSkills_def])
  have p: "partial ?g = filter (\<lambda>s. \<not> toLowerCase s \<in> ?R
              \<and> (\<exists>r. r \<in> ?R \<and> (sublist r (toLowerCase s) \<or> sublist (toLowerCase s) r))) ?js"
    unfolding eq by (rule analyzeSkillGaps_filters(2) [unfolded combinedSkills_def])
  have x: "missing ?g = filter (\<lambda>s. \<not> toLowerCase s \<in> ?R
              \<and> \<not> (\<exists>r. r \<in> ?R \<and> (sublist r (toLowerCase s) \<or> sublist (toLowerCase s) r))) ?js"
    unfolding eq by (rule analyzeSkillGaps_filters(3) [unfolded combinedSkills_def])
  show ?thesis
    unfolding Let_def using m p x ex by (intro conjI)
qed

theorem analyzeSkillGaps_rule_witness:
  "(let g = analyzeSkillGaps ascii_toLowerCase (skills_only [''Python'', ''Docker''])
              (skills_only [''Python'', ''AWS'', ''Django''])
    in matched g = [''Python''])"
  using analyzeSkillGaps_rule [of ascii_toLowerCase "skills_only [''Python'', ''Docker'']"
      "skills_only [''Python'', ''AWS'', ''Django'']"]
  by (simp add: Let_def skills_only_def ascii_toLowerCase_def)

text \<open>The scenario of the specification: Python and Docker against Python, AWS, Django.\<close>

lemma analyzeSkillGaps_scenario:
  "analyzeSkillGaps ascii_toLowerCase (skills_only [''Python'', ''Docker''])
     (skills_only [''Python'', ''AWS'', ''Django''])
   = \<lparr>missing = [''AWS'', ''Django''], matched = [''Python''], partial = []\<rparr>"
  by (simp add: analyzeSkillGaps_def skills_only_def combinedSkills_def ascii_toLowerCase_def
          String_includes_def sublist_code prefix_code)

section \<open>Properties of binary64 rounding\<close>

lemma round_half_even_near: "\<bar>of_int (round_half_even y) - y\<bar> \<le> 1 / 2"
  unfolding round_half_even_def Let_def by (auto; linarith)

lemma round_half_even_of_int [simp]: "round_half_even (of_int n) = n"
  unfolding round_half_even_def Let_def by simp

lemma round_half_even_numeral [simp]: "round_half_even (numeral n) = numeral n"
  using round_half_even_of_int [of "numeral n"] by simp

lemma round_half_even_0 [simp]: "round_half_even 0 = 0"
  using round_half_even_of_int [of 0] by simp

lemma round_half_even_mono: "y \<le> z \<Longrightarrow> round_half_even y \<le> round_half_even z"
proof -
  assume yz: "y \<le> z"
  have fy: "\<lfloor>y\<rfloor> \<le> \<lfloor>z\<rfloor>" using yz by (rule floor_mono)
  have ry: "round_half_even y \<le> \<lfloor>y\<rfloor> + 1" and rz: "\<lfloor>z\<rfloor> \<le> round_half_even z"
    unfolding round_half_even_def Let_def by auto
  show ?thesis
  proof (cases "\<lfloor>y\<rfloor> < \<lfloor>z\<rfloor>")
    case True
    with ry rz show ?thesis by linarith
  next
    case False
    with fy have eq: "\<lfloor>y\<rfloor> = \<lfloor>z\<rfloor>" by simp
    with yz show ?thesis
      unfolding round_half_even_def Let_def by (auto; linarith)
  qed
qed

lemma round_half_even_minus: "round_half_even (- y) = - round_half_even y"
proof (cases "y \<in> \<int>")
  case True
  then obtain n where "y = of_int n" by (auto elim: Ints_cases)
  then show ?thesis by (simp add: round_half_even_of_int [of "- n", simplified])
next
  case False
  then have "y \<noteq> of_int \<lfloor>y\<rfloor>" by (metis Ints_of_int)
  then have f: "\<lfloor>- y\<rfloor> = - \<lfloor>y\<rfloor> - 1"
    by (simp add: floor_minus ceiling_altdef)
  show ?thesis
    unfolding round_half_even_def Let_def f
    by (auto; linarith?)
qed


lemma two_powi_pos [simp]: "0 < (2::real) powi k"
  by (simp add: zero_less_power_int)

lemma two_powi_mono: "j \<le> k \<Longrightarrow> (2::real) powi j \<le> 2 powi k"
  by (simp add: power_int_increasing)

lemma two_powi_add: "(2::real) powi (j + k) = 2 powi j * 2 powi k"
  by (simp add: power_int_add)

lemma two_powi_powr: "(2::real) powi k = 2 powr (of_int k)"
  by (simp add: powr_real_of_int' power_int_def)

lemma floor_log2_bounds:
  assumes "0 < x"
  shows "2 powi \<lfloor>log 2 x\<rfloor> \<le> x" and "x < 2 powi (\<lfloor>log 2 x\<rfloor> + 1)"
  using floor_log_eq_powr_iff [of x 2 "\<lfloor>log 2 x\<rfloor>"] assms
  by (simp_all add: two_powi_powr)

lemma floor_log2_eq:
  assumes "2 powi k \<le> x" "x < 2 powi (k + 1)"
  shows "\<lfloor>log 2 x\<rfloor> = k"
proof -
  have "0 < x" using assms(1) two_powi_pos [of k] by linarith
  with floor_log_eq_powr_iff [of x 2 k] assms show ?thesis
    by (simp add: two_powi_powr)
qed

lemma binade_minus [simp]: "binade (- x) = binade x"
  by (simp add: binade_def)

lemma ulp_minus [simp]: "ulp (- x) = ulp x"
  by (simp add: ulp_def)

lemma ulp_pos [simp]: "0 < ulp x"
  by (simp add: ulp_def)

lemma ulp_nonneg [simp]: "0 \<le> ulp x"
  using ulp_pos [of x] by linarith

lemma ulp_times: "2 powi k * ulp x = 2 powi (k + binade x - 52)"
  unfolding ulp_def two_powi_add [symmetric] by (simp add: algebra_simps)

lemma ulp_times_53: "2 ^ 53 * ulp x = 2 powi (binade x + 1)"
  using ulp_times [of 53 x] by (simp add: add.commute)

lemma ulp_times_52: "2 ^ 52 * ulp x = 2 powi (binade x)"
  using ulp_times [of 52 x] by simp

lemma binary64_minus: "binary64 (- x) = - binary64 x"
  by (simp add: binary64_def round_half_even_minus)

lemma binade_upper: "x \<noteq> 0 \<Longrightarrow> \<bar>x\<bar> < 2 powi (binade x + 1)"
proof -
  assume "x \<noteq> 0"
  then have "\<bar>x\<bar> < 2 powi (\<lfloor>log 2 \<bar>x\<bar>\<rfloor> + 1)" by (simp add: floor_log2_bounds)
  also have "\<dots> \<le> 2 powi (binade x + 1)"
    by (rule two_powi_mono) (simp add: binade_def)
  finally show ?thesis .
qed

lemma binade_lower: "x \<noteq> 0 \<Longrightarrow> - 1022 < binade x \<Longrightarrow> 2 powi (binade x) \<le> \<bar>x\<bar>"
proof -
  assume "x \<noteq> 0" "- 1022 < binade x"
  then have "binade x = \<lfloor>log 2 \<bar>x\<bar>\<rfloor>" by (simp add: binade_def max_def split: if_splits)
  with \<open>x \<noteq> 0\<close> show ?thesis by (simp add: floor_log2_bounds)
qed

lemma binade_mono: "0 < x \<Longrightarrow> x \<le> y \<Longrightarrow> binade x \<le> binade y"
proof -
  assume "0 < x" "x \<le> y"
  then have "log 2 \<bar>x\<bar> \<le> log 2 \<bar>y\<bar>" by simp
  then have "\<lfloor>log 2 \<bar>x\<bar>\<rfloor> \<le> \<lfloor>log 2 \<bar>y\<bar>\<rfloor>" by (rule floor_mono)
  then show ?thesis by (simp add: binade_def)
qed

lemma binade_eq:
  assumes "2 powi k \<le> \<bar>x\<bar>" "\<bar>x\<bar> < 2 powi (k + 1)" "- 1022 \<le> k"
  shows "binade x = k"
  using floor_log2_eq [OF assms(1,2)] assms(3) by (simp add: binade_def)

lemma binary64_nonneg: "0 \<le> x \<Longrightarrow> 0 \<le> binary64 x"
proof -
  assume "0 \<le> x"
  then have "0 \<le> x / ulp x" using ulp_pos [of x] by (intro divide_nonneg_pos)
  then have "round_half_even 0 \<le> round_half_even (x / ulp x)" by (rule round_half_even_mono)
  then have "0 \<le> round_half_even (x / ulp x)" by simp
  then show ?thesis by (simp add: binary64_def mult_nonneg_nonneg)
qed

lemma binary64_upper: "0 < x \<Longrightarrow> binary64 x \<le> 2 powi (binade x + 1)"
proof -
  assume x: "0 < x"
  have "x \<le> 2 ^ 53 * ulp x"
    using binade_upper [of x] x by (simp only: ulp_times_53) simp
  then have "x / ulp x \<le> of_int (2 ^ 53)"
    using ulp_pos [of x] by (simp add: pos_divide_le_eq)
  then have "round_half_even (x / ulp x) \<le> round_half_even (of_int (2 ^ 53))"
    by (rule round_half_even_mono)
  then have "of_int (round_half_even (x / ulp x)) \<le> (2::real) ^ 53"
    by simp
  then have "of_int (round_half_even (x / ulp x)) * ulp x \<le> 2 ^ 53 * ulp x"
    by (intro mult_right_mono) simp_all
  then show ?thesis using x by (simp only: ulp_times_53) (simp add: binary64_def)
qed

lemma binary64_lower: "0 < x \<Longrightarrow> - 1022 < binade x \<Longrightarrow> 2 powi (binade x) \<le> binary64 x"
proof -
  assume x: "0 < x" and b: "- 1022 < binade x"
  have "2 ^ 52 * ulp x \<le> x"
    using binade_lower [of x] x b by (simp only: ulp_times_52) simp
  then have "of_int (2 ^ 52) \<le> x / ulp x"
    using ulp_pos [of x] by (simp add: pos_le_divide_eq)
  then have "round_half_even (of_int (2 ^ 52)) \<le> round_half_even (x / ulp x)"
    by (rule round_half_even_mono)
  then have "(2::real) ^ 52 \<le> of_int (round_half_even (x / ulp x))"
    by simp
  then have "2 ^ 52 * ulp x \<le> of_int (round_half_even (x / ulp x)) * ulp x"
    by (intro mult_right_mono) simp_all
  then show ?thesis using x by (simp only: ulp_times_52) (simp add: binary64_def)
qed

text \<open>Rounding is monotone.\<close>

lemma binary64_mono_pos:
  assumes "0 < x" "x \<le> y"
  shows "binary64 x \<le> binary64 y"
proof (cases "binade x = binade y")
  case True
  then have u: "ulp x = ulp y" by (simp add: ulp_def)
  have "x / ulp y \<le> y / ulp y"
    using assms ulp_pos [of y] by (intro divide_right_mono) simp_all
  then have "round_half_even (x / ulp y) \<le> round_half_even (y / ulp y)"
    by (rule round_half_even_mono)
  then have "of_int (round_half_even (x / ulp y)) * ulp y
               \<le> of_int (round_half_even (y / ulp y)) * ulp y"
    by (simp add: mult_right_mono)
  with assms u show ?thesis by (simp add: binary64_def)
next
  case False
  with binade_mono [OF assms] have lt: "binade x + 1 \<le> binade y" by simp
  have "- 1022 \<le> binade x" by (simp add: binade_def)
  with lt have b: "- 1022 < binade y" by simp
  have "binary64 x \<le> 2 powi (binade x + 1)" using assms(1) by (rule binary64_upper)
  also have "\<dots> \<le> 2 powi (binade y)" using lt by (rule two_powi_mono)
  also have "\<dots> \<le> binary64 y" using assms b by (intro binary64_lower) simp_all
  finally show ?thesis .
qed

lemma binary64_mono: "x \<le> y \<Longrightarrow> binary64 x \<le> binary64 y"
proof -
  assume xy: "x \<le> y"
  consider "0 < x" | "x \<le> 0" "0 \<le> y" | "y < 0" by linarith
  then show ?thesis
  proof cases
    case 1
    from 1 xy show ?thesis by (rule binary64_mono_pos)
  next
    case 2
    have "binary64 x = - binary64 (- x)" by (simp add: binary64_minus)
    moreover have "0 \<le> binary64 (- x)" using 2 by (intro binary64_nonneg) simp
    moreover have "0 \<le> binary64 y" using 2 by (intro binary64_nonneg)
    ultimately show ?thesis by linarith
  next
    case 3
    then have "binary64 (- y) \<le> binary64 (- x)" using xy by (intro binary64_mono_pos) simp_all
    then show ?thesis by (simp add: binary64_minus)
  qed
qed

text \<open>A value with a significand of at most 53 bits is its own rounding.\<close>

lemma binary64_exact:
  assumes m: "\<bar>m\<bar> < 2 ^ 53" and e: "- 1074 \<le> e"
  shows "binary64 (of_int m * 2 powi e) = of_int m * 2 powi e"
proof (cases "m = 0")
  case True
  then show ?thesis by (simp add: binary64_def)
next
  case False
  let ?x = "of_int m * (2::real) powi e"
  have x0: "?x \<noteq> 0" using False by simp
  have "\<bar>?x\<bar> = \<bar>of_int m\<bar> * 2 powi e" by (simp add: abs_mult)
  also have "\<dots> < 2 powi 53 * 2 powi e"
  proof (intro mult_strict_right_mono)
    have "real_of_int \<bar>m\<bar> < real_of_int (2 ^ 53)" using m by (simp only: of_int_less_iff)
    then show "\<bar>real_of_int m\<bar> < 2 powi 53" by simp
  qed simp
  finally have up: "\<bar>?x\<bar> < 2 powi (53 + e)" by (simp only: two_powi_add)
  have "binade ?x - 52 \<le> e"
  proof (cases "- 1022 < binade ?x")
    case True
    from binade_lower [OF x0 True] up have "(2::real) powi (binade ?x) < 2 powi (53 + e)"
      by linarith
    then have "binade ?x < 53 + e"
      by (metis not_less two_powi_mono)
    then show ?thesis by simp
  next
    case False
    moreover have "- 1022 \<le> binade ?x" by (simp add: binade_def)
    ultimately have "binade ?x = - 1022" by simp
    with e show ?thesis by simp
  qed
  then obtain d where d: "e = (binade ?x - 52) + int d"
    by (metis add.commute diff_ge_0_iff_ge nat_0_le diff_add_cancel)
  have "?x / ulp ?x = of_int m * 2 ^ d"
    by (subst d) (simp add: ulp_def two_powi_add power_int_def [of _ "int d"])
  also have "\<dots> = of_int (m * 2 ^ d)" by simp
  finally have i: "?x / ulp ?x = of_int (m * 2 ^ d)" .
  have "of_int (round_half_even (?x / ulp ?x)) * ulp ?x = (?x / ulp ?x) * ulp ?x"
    by (simp only: i round_half_even_of_int)
  also have "\<dots> = ?x"
  proof -
    have "ulp ?x \<noteq> 0" using ulp_pos [of ?x] by linarith
    then show ?thesis by simp
  qed
  finally show ?thesis using x0 by (simp add: binary64_def)
qed


text \<open>The rounding error is at most half the spacing.\<close>

lemma binary64_near: "\<bar>binary64 x - x\<bar> \<le> ulp x / 2"
proof (cases "x = 0")
  case True
  then show ?thesis by (simp add: binary64_def)
next
  case False
  have u: "ulp x \<noteq> 0" using ulp_pos [of x] by linarith
  have "binary64 x - x = (of_int (round_half_even (x / ulp x)) - x / ulp x) * ulp x"
    using False u by (simp add: binary64_def algebra_simps)
  then have "\<bar>binary64 x - x\<bar> = \<bar>of_int (round_half_even (x / ulp x)) - x / ulp x\<bar> * ulp x"
    by (simp add: abs_mult)
  also have "\<dots> \<le> (1 / 2) * ulp x"
    using round_half_even_near [of "x / ulp x"] by (intro mult_right_mono) simp_all
  finally show ?thesis by simp
qed

lemma ulp_le:
  assumes "x \<noteq> 0" "\<bar>x\<bar> < 2 powi (k + 1)" "- 1022 \<le> k"
  shows "ulp x \<le> 2 powi (k - 52)"
proof -
  have "binade x \<le> k"
  proof (rule ccontr)
    assume "\<not> binade x \<le> k"
    then have gt: "k + 1 \<le> binade x" by simp
    with assms(3) have b: "- 1022 < binade x" by simp
    from binade_lower [OF assms(1) b] two_powi_mono [OF gt] assms(2) show False by linarith
  qed
  then show ?thesis unfolding ulp_def by (intro two_powi_mono) simp
qed

lemma binary64_error:
  assumes "\<bar>x\<bar> < 2 powi (k + 1)" "- 1022 \<le> k"
  shows "\<bar>binary64 x - x\<bar> \<le> 2 powi (k - 53)"
proof (cases "x = 0")
  case True
  then show ?thesis by (simp add: binary64_def)
next
  case False
  have "2 powi (k - 52) = 2 powi 1 * (2 powi (k - 53) :: real)"
    using two_powi_add [of 1 "k - 53"] by simp
  with ulp_le [OF False assms] binary64_near [of x] show ?thesis by simp
qed

lemma binary64_between:
  assumes "lo \<le> x" "x \<le> hi" "binary64 lo = lo" "binary64 hi = hi"
  shows "lo \<le> binary64 x" "binary64 x \<le> hi"
  using binary64_mono [OF assms(1)] binary64_mono [OF assms(2)] assms(3,4) by simp_all

lemma to_number_finite:
  assumes "- (2 ^ 1024) < binary64 x" "binary64 x < 2 ^ 1024"
  shows "to_number x = Num (binary64 x)"
  using assms by (simp add: to_number_def Let_def)

lemma binary64_0 [simp]: "binary64 0 = 0"
  by (simp add: binary64_def)

lemma binary64_values [simp]:
  "binary64 1 = 1"
  "binary64 2 = 2"
  "binary64 50 = 50"
  "binary64 75 = 75"
  "binary64 100 = 100"
  "binary64 125 = 125"
  "binary64 500 = 500"
  "binary64 750 = 750"
  "binary64 1000 = 1000"
  "binary64 1250 = 1250"
  "binary64 (1 / 2) = 1 / 2"
  "binary64 (3 / 2) = 3 / 2"
  "binary64 (5 / 2) = 5 / 2"
  "binary64 (3 / 4) = 3 / 4"
  "binary64 (5 / 4) = 5 / 4"
  "binary64 (- (1 / 2)) = - (1 / 2)"
  "binary64 (- (1 / 4)) = - (1 / 4)"
  "binary64 (- 25) = - 25"
  "binary64 (- 250) = - 250"
  using
    binary64_exact [of 1 0]
    binary64_exact [of 2 0]
    binary64_exact [of 50 0]
    binary64_exact [of 75 0]
    binary64_exact [of 100 0]
    binary64_exact [of 125 0]
    binary64_exact [of 500 0]
    binary64_exact [of 750 0]
    binary64_exact [of 1000 0]
    binary64_exact [of 1250 0]
    binary64_exact [of 1 "- 1"]
    binary64_exact [of 3 "- 1"]
    binary64_exact [of 5 "- 1"]
    binary64_exact [of 3 "- 2"]
    binary64_exact [of 5 "- 2"]
    binary64_exact [of "- 1" "- 1"]
    binary64_exact [of "- 1" "- 2"]
    binary64_exact [of "- 25" 0]
    binary64_exact [of "- 250" 0]
  by simp_all

lemma to_number_between:
  assumes "lo \<le> x" "x \<le> hi" "binary64 lo = lo" "binary64 hi = hi"
    and "- (2 ^ 1024) < lo" "hi < 2 ^ 1024"
  shows "to_number x = Num (binary64 x)"
proof (rule to_number_finite)
  from binary64_between(1) [OF assms(1-4)] assms(5) show "- (2 ^ 1024) < binary64 x" by linarith
  from binary64_between(2) [OF assms(1-4)] assms(6) show "binary64 x < 2 ^ 1024" by linarith
qed

lemma binary64_bounds:
  "binary64 (- (1 / 1024)) = - (1 / 1024)"
  "binary64 (2049 / 1024) = 2049 / 1024"
  "binary64 (- (1 / 2048)) = - (1 / 2048)"
  "binary64 (2049 / 2048) = 2049 / 2048"
  "binary64 (- (25 / 512)) = - (25 / 512)"
  "binary64 (51225 / 512) = 51225 / 512"
  "binary64 (- (125 / 256)) = - (125 / 256)"
  "binary64 (256125 / 256) = 256125 / 256"
  using
    binary64_exact [of "- 1" "- 10"]
    binary64_exact [of 2049 "- 10"]
    binary64_exact [of "- 1" "- 11"]
    binary64_exact [of 2049 "- 11"]
    binary64_exact [of "- 25" "- 9"]
    binary64_exact [of 51225 "- 9"]
    binary64_exact [of "- 125" "- 8"]
    binary64_exact [of 256125 "- 8"]
  by simp_all

text \<open>The rounding of a value whose binade is known.\<close>

lemma binary64_eval:
  assumes "2 powi k \<le> \<bar>x\<bar>" "\<bar>x\<bar> < 2 powi (k + 1)" "- 1022 \<le> k"
  shows "binary64 x = of_int (round_half_even (x / 2 powi (k - 52))) * 2 powi (k - 52)"
proof -
  have "x \<noteq> 0"
  proof
    assume "x = 0"
    with assms(1) have "2 powi k \<le> (0::real)" by simp
    moreover have "0 < (2::real) powi k" by simp
    ultimately show False by linarith
  qed
  moreover have "ulp x = 2 powi (k - 52)"
    unfolding ulp_def using binade_eq [OF assms] by simp
  ultimately show ?thesis by (simp add: binary64_def)
qed

section \<open>Properties of the similarity scorer\<close>

lemma calculateSimilarityPercentage_values:
  "calculateSimilarityPercentage (- 1) = Num 0"
  "calculateSimilarityPercentage 0 = Num 50"
  "calculateSimilarityPercentage 1 = Num 100"
  "calculateSimilarityPercentage (1 / 2) = Num 75"
  "calculateSimilarityPercentage (3 / 2) = Num 125"
  "calculateSimilarityPercentage (- 3 / 2) = Num (- 25)"
  by (simp_all add: calculateSimilarityPercentage_def to_number_def Let_def)

text \<open>
  A score just outside \<open>[-1, 1]\<close>: \<open>1 + 1/2048\<close> gives 100 and \<open>-(1 + 1/2048)\<close> gives 0,
  because the last digit is rounded away, not because anything is clamped.
\<close>

lemma binary64_excursion:
  "binary64 (4097 / 2048) = 4097 / 2048"
  "binary64 (4097 / 4096) = 4097 / 4096"
  "binary64 (102425 / 1024) = 102425 / 1024"
  "binary64 (512125 / 512) = 512125 / 512"
  "binary64 (- (1 / 4096)) = - (1 / 4096)"
  "binary64 (- (25 / 1024)) = - (25 / 1024)"
  "binary64 (- (125 / 512)) = - (125 / 512)"
  using
    binary64_exact [of 4097 "- 11"]
    binary64_exact [of 4097 "- 12"]
    binary64_exact [of 102425 "- 10"]
    binary64_exact [of 512125 "- 9"]
    binary64_exact [of "- 1" "- 12"]
    binary64_exact [of "- 25" "- 10"]
    binary64_exact [of "- 125" "- 9"]
  by simp_all

lemma calculateSimilarityPercentage_excursion:
  "calculateSimilarityPercentage (2049 / 2048) = Num 100"
  "calculateSimilarityPercentage (- (2049 / 2048)) = Num 0"
  by (simp_all add: calculateSimilarityPercentage_def to_number_def Let_def
      binary64_excursion binary64_bounds)

text \<open>
  A near tie: the exact percentage of the score \<open>0.005\<close> is \<open>50.25\<close>, and the sum
  \<open>0.005 + 1\<close> is rounded down, so that ten times the percentage is below \<open>502.5\<close> and the
  result is the binary64 value nearest to \<open>50.2\<close>.
\<close>

lemma binary64_near_tie:
  "binary64 (1 / 200 + 1) = 4526117625507348 / 2 ^ 52"
  "binary64 (4526117625507348 / 2 ^ 52 / 2) = 4526117625507348 / 2 ^ 53"
  "binary64 (4526117625507348 / 2 ^ 53 * 100) = 7072058789855231 / 2 ^ 47"
  "binary64 (7072058789855231 / 2 ^ 47 * 10) = 8840073487319039 / 2 ^ 44"
  using binary64_eval [of 0 "1 / 200 + 1"]
    binary64_exact [of 4526117625507348 "- 53"]
    binary64_eval [of 5 "4526117625507348 / 2 ^ 53 * 100"]
    binary64_eval [of 8 "7072058789855231 / 2 ^ 47 * 10"]
  by (simp_all add: round_half_even_def Let_def power_int_minus)

lemma calculateSimilarityPercentage_near_tie:
  "calculateSimilarityPercentage (1 / 200) = to_number (502 / 10)"
proof -
  have 1: "to_number (1 / 200 + 1) = Num (4526117625507348 / 2 ^ 52)"
    unfolding to_number_def Let_def binary64_near_tie by simp
  have 2: "to_number (4526117625507348 / 2 ^ 52 / 2) = Num (4526117625507348 / 2 ^ 53)"
    unfolding to_number_def Let_def binary64_near_tie by simp
  have 3: "to_number (4526117625507348 / 2 ^ 53 * 100) = Num (7072058789855231 / 2 ^ 47)"
    unfolding to_number_def Let_def binary64_near_tie by simp
  have 4: "to_number (7072058789855231 / 2 ^ 47 * 10) = Num (8840073487319039 / 2 ^ 44)"
    unfolding to_number_def Let_def binary64_near_tie by simp
  have 5: "\<lfloor>8840073487319039 / 2 ^ 44 + 1 / 2 :: real\<rfloor> = 502"
    by simp
  show ?thesis
    unfolding calculateSimilarityPercentage_def Let_def number_plus.simps number_divide.simps
      number_times.simps Math_round.simps 1 2 3 4 5
    by simp
qed

text \<open>
  C4. \<open>calculateSimilarityPercentage\<close> maps \<open>-1\<close> to 0, 0 to 50 and 1 to 100. For every
  score in \<open>[-1, 1]\<close>, and for every score outside it by no more than \<open>1/1024\<close> (a rounding
  error of a cosine is far smaller), the result is a finite number between 0 and 100: it
  is the binary64 value nearest to \<open>n / 10\<close> for an integer \<open>n\<close> from 0 to 1000, and it is
  within \<open>1/20 + 1/2^43\<close> of \<open>((score + 1) / 2) * 100\<close>, that is, the percentage rounded to
  one decimal.
\<close>

theorem calculateSimilarityPercentage_rounds:
  "calculateSimilarityPercentage (- 1) = Num 0
   \<and> calculateSimilarityPercentage 0 = Num 50
   \<and> calculateSimilarityPercentage 1 = Num 100
   \<and> (- (1 + 1 / 1024) \<le> s \<and> s \<le> 1 + 1 / 1024 \<longrightarrow>
        (\<exists>n p. calculateSimilarityPercentage s = Num p
           \<and> p = binary64 (of_int n / 10) \<and> 0 \<le> n \<and> n \<le> 1000
           \<and> 0 \<le> p \<and> p \<le> 100
           \<and> \<bar>p - ((s + 1) / 2) * 100\<bar> \<le> 1 / 20 + 1 / 2 ^ 43))"
proof -
  have range: "\<exists>n p. calculateSimilarityPercentage s = Num p
           \<and> p = binary64 (of_int n / 10) \<and> 0 \<le> n \<and> n \<le> 1000
           \<and> 0 \<le> p \<and> p \<le> 100
           \<and> \<bar>p - ((s + 1) / 2) * 100\<bar> \<le> 1 / 20 + 1 / 2 ^ 43"
    if "- (1 + 1 / 1024) \<le> s" "s \<le> 1 + 1 / 1024"
  proof -
    define a where "a = binary64 (s + 1)"
    define b where "b = binary64 (a / 2)"
    define c where "c = binary64 (b * 100)"
    define d where "d = binary64 (c * 10)"
    define n where "n = \<lfloor>d + 1 / 2\<rfloor>"
    define r where "r = binary64 (of_int n / 10)"
    have big: "- (2 ^ 1024) < (- 1024 :: real)" "(1024 :: real) < 2 ^ 1024"
      by simp_all
    have s1: "- (1 / 1024) \<le> s + 1" "s + 1 \<le> 2049 / 1024"
      using that by simp_all
    have a: "- (1 / 1024) \<le> a" "a \<le> 2049 / 1024"
      unfolding a_def using binary64_between [OF s1 binary64_bounds(1,2)] by simp_all
    have na: "to_number (s + 1) = Num a"
      unfolding a_def using big by (intro to_number_between [OF s1 binary64_bounds(1,2)]) simp_all
    have ea: "\<bar>a - (s + 1)\<bar> \<le> 1 / 2 ^ 52"
      unfolding a_def using binary64_error [of "s + 1" 1] s1 by (simp add: power_int_minus field_simps)
    have a2: "- (1 / 2048) \<le> a / 2" "a / 2 \<le> 2049 / 2048"
      using a by simp_all
    have b: "- (1 / 2048) \<le> b" "b \<le> 2049 / 2048"
      unfolding b_def using binary64_between [OF a2 binary64_bounds(3,4)] by simp_all
    have nb: "to_number (a / 2) = Num b"
      unfolding b_def using big by (intro to_number_between [OF a2 binary64_bounds(3,4)]) simp_all
    have eb: "\<bar>b - a / 2\<bar> \<le> 1 / 2 ^ 53"
      unfolding b_def using binary64_error [of "a / 2" 0] a2 by (simp add: power_int_minus field_simps)
    have b100: "- (25 / 512) \<le> b * 100" "b * 100 \<le> 51225 / 512"
      using b by simp_all
    have c: "- (25 / 512) \<le> c" "c \<le> 51225 / 512"
      unfolding c_def using binary64_between [OF b100 binary64_bounds(5,6)] by simp_all
    have nc: "to_number (b * 100) = Num c"
      unfolding c_def using big by (intro to_number_between [OF b100 binary64_bounds(5,6)]) simp_all
    have ec: "\<bar>c - b * 100\<bar> \<le> 1 / 2 ^ 47"
      unfolding c_def using binary64_error [of "b * 100" 6] b100 by (simp add: power_int_minus field_simps)
    have c10: "- (125 / 256) \<le> c * 10" "c * 10 \<le> 256125 / 256"
      using c by simp_all
    have d: "- (125 / 256) \<le> d" "d \<le> 256125 / 256"
      unfolding d_def using binary64_between [OF c10 binary64_bounds(7,8)] by simp_all
    have nd: "to_number (c * 10) = Num d"
      unfolding d_def using big by (intro to_number_between [OF c10 binary64_bounds(7,8)]) simp_all
    have ed: "\<bar>d - c * 10\<bar> \<le> 1 / 2 ^ 44"
      unfolding d_def using binary64_error [of "c * 10" 9] c10 by (simp add: power_int_minus field_simps)
    have n: "0 \<le> n" "n \<le> 1000"
      unfolding n_def using d by (simp_all add: le_floor_iff floor_le_iff)
    have en: "\<bar>of_int n - d\<bar> \<le> 1 / 2"
      unfolding n_def by linarith
    have n10: "0 \<le> real_of_int n / 10" "real_of_int n / 10 \<le> 100"
      using n by simp_all
    have r: "0 \<le> r" "r \<le> 100"
      unfolding r_def using binary64_between [OF n10 binary64_0 binary64_values(5)] by simp_all
    have nr: "to_number (of_int n / 10) = Num r"
      unfolding r_def using big by (intro to_number_between [OF n10 binary64_0 binary64_values(5)]) simp_all
    have er: "\<bar>r - of_int n / 10\<bar> \<le> 1 / 2 ^ 47"
      unfolding r_def using binary64_error [of "of_int n / 10" 6] n10 by (simp add: power_int_minus field_simps)
    have "calculateSimilarityPercentage s = Num r"
      by (simp add: calculateSimilarityPercentage_def Let_def na nb nc nd nr flip: n_def)
    moreover have "\<bar>r - (s + 1) / 2 * 100\<bar> \<le> 1 / 20 + 1 / 2 ^ 43"
      using ea eb ec ed en er by simp argo
    ultimately show ?thesis using r n r_def by blast
  qed
  have vals: "calculateSimilarityPercentage (- 1) = Num 0"
    "calculateSimilarityPercentage 0 = Num 50" "calculateSimilarityPercentage 1 = Num 100"
    by (simp_all add: calculateSimilarityPercentage_def to_number_def Let_def)
  from range vals show ?thesis by blast
qed

theorem calculateSimilarityPercentage_rounds_witness:
  "(1 :: real) < 2049 / 2048
   \<and> - (1 + 1 / 1024) \<le> (2049 / 2048 :: real) \<and> (2049 / 2048 :: real) \<le> 1 + 1 / 1024
   \<and> (\<exists>p. calculateSimilarityPercentage (2049 / 2048) = Num p \<and> 0 \<le> p \<and> p \<le> 100
          \<and> \<bar>p - 102425 / 1024\<bar> \<le> 1 / 20 + 1 / 2 ^ 43)"
proof -
  from calculateSimilarityPercentage_rounds [of "2049 / 2048"]
  have "\<exists>n p. calculateSimilarityPercentage (2049 / 2048) = Num p
           \<and> p = binary64 (of_int n / 10) \<and> 0 \<le> n \<and> n \<le> 1000
           \<and> 0 \<le> p \<and> p \<le> 100
           \<and> \<bar>p - ((2049 / 2048 + 1) / 2) * 100\<bar> \<le> 1 / 20 + 1 / 2 ^ 43"
    by simp
  then obtain p where "calculateSimilarityPercentage (2049 / 2048) = Num p" "0 \<le> p" "p \<le> 100"
    "\<bar>p - ((2049 / 2048 + 1) / 2) * 100\<bar> \<le> 1 / 20 + 1 / 2 ^ 43"
    by blast
  moreover have "((2049 / 2048 + 1) / 2) * 100 = (102425 / 1024 :: real)" by simp
  ultimately show ?thesis by auto
qed

section \<open>Properties of the skill profile schema\<close>

lemma under_Inr: "under k r = Inr v \<longleftrightarrow> r = Inr v"
  by (cases r) (simp_all add: under_def)

lemma z_default_Inr:
  "z_default schema d v = Inr a \<Longrightarrow> (v = None \<longrightarrow> a = d) \<and> (v \<noteq> None \<longrightarrow> schema v = Inr a)"
  by (cases v) (simp_all add: z_default_def)

lemma z_optional_Inr:
  "z_optional schema v = Inr a \<Longrightarrow>
     (v = None \<longleftrightarrow> a = None) \<and> (\<forall>x. a = Some x \<longrightarrow> schema v = Inr x)"
  by (cases v) (auto simp: z_optional_def split: sum.splits)

lemma ExtractedSkillsSchema_parse_Inr:
  assumes "ExtractedSkillsSchema_parse raw = Inr p"
  shows "z_default z_array_string [] (get_prop raw ''technicalSkills'') = Inr (technicalSkills p)"
    and "z_default z_array_string [] (get_prop raw ''frameworks'') = Inr (frameworks p)"
    and "z_default z_array_string [] (get_prop raw ''languages'') = Inr (languages p)"
    and "z_default z_array_string [] (get_prop raw ''tools'') = Inr (tools p)"
    and "z_default z_array_string [] (get_prop raw ''softSkills'') = Inr (softSkills p)"
    and "z_optional z_number (get_prop raw ''yearsOfExperience'') = Inr (yearsOfExperience p)"
    and "z_optional z_string (get_prop raw ''currentRole'') = Inr (currentRole p)"
    and "z_optional z_array_string (get_prop raw ''education'') = Inr (education p)"
    and "z_optional z_array_string (get_prop raw ''certifications'') = Inr (certifications p)"
  using assms
  by (auto simp: ExtractedSkillsSchema_parse_def Let_def under_Inr
        split: json.splits sum.splits)


lemma z_array_elems:
  "length ns = length ys \<Longrightarrow>
   concat (map issues_of (map (\<lambda>(i, x). under (Index i) (z_string (Some x))) (zip ns ys))) = [] \<Longrightarrow>
   ys = map JStr (concat (map (\<lambda>r. case r of Inr s \<Rightarrow> [s] | Inl _ \<Rightarrow> [])
          (map (\<lambda>(i, x). under (Index i) (z_string (Some x))) (zip ns ys))))"
proof (induction ys arbitrary: ns)
  case Nil
  then show ?case by simp
next
  case (Cons y ys)
  then obtain n ns' where ns: "ns = n # ns'" by (cases ns) auto
  with Cons.prems have l: "length ns' = length ys" by simp
  from Cons.prems(2) ns have
    h: "issues_of (under (Index n) (z_string (Some y))) = []"
    and t: "concat (map issues_of (map (\<lambda>(i, x). under (Index i) (z_string (Some x))) (zip ns' ys))) = []"
    by simp_all
  from h obtain s where y: "y = JStr s"
    by (cases y) (simp_all add: issues_of_def under_def z_string_def)
  from Cons.IH [OF l t] y ns show ?case
    by (simp add: under_def z_string_def)
qed

lemma z_array_string_Inr:
  "z_array_string v = Inr xs \<Longrightarrow> v = Some (JArr (map JStr xs))"
proof -
  assume a: "z_array_string v = Inr xs"
  then obtain ys where v: "v = Some (JArr ys)"
    by (auto simp: z_array_string_def split: option.splits json.splits)
  from a v z_array_elems [of "[0..<length ys]" ys] show ?thesis
    by (auto simp: z_array_string_def Let_def split: if_splits)
qed

text \<open>
  C8, as stated, fails for \<open>education\<close> and \<open>certifications\<close>: the schema declares
  them \<open>optional()\<close>, with no default, and the empty object is accepted with both absent.
\<close>

theorem ExtractedSkillsSchema_missing_education:
  "ExtractedSkillsSchema_parse (JObj []) =
     Inr \<lparr>technicalSkills = [], frameworks = [], languages = [], tools = [], softSkills = [],
          yearsOfExperience = None, currentRole = None, education = None,
          certifications = None\<rparr>
   \<and> \<not> (case ExtractedSkillsSchema_parse (JObj []) of
          Inl issues \<Rightarrow> True
        | Inr p \<Rightarrow> education p \<noteq> None \<and> certifications p \<noteq> None)"
  by (simp add: ExtractedSkillsSchema_parse_def get_prop_def under_def z_default_def
        z_optional_def)


lemma default_list_field:
  "z_default z_array_string [] v = Inr xs \<Longrightarrow>
     (case v of None \<Rightarrow> xs = [] | Some j \<Rightarrow> j = JArr (map JStr xs))"
  by (cases v) (auto simp: z_default_def dest: z_array_string_Inr)

lemma optional_list_field:
  "z_optional z_array_string v = Inr a \<Longrightarrow>
     (case v of None \<Rightarrow> a = None | Some j \<Rightarrow> \<exists>xs. a = Some xs \<and> j = JArr (map JStr xs))"
  by (cases v) (auto simp: z_optional_def split: sum.splits dest: z_array_string_Inr)

lemma optional_number_field:
  "z_optional z_number v = Inr a \<Longrightarrow>
     (case v of None \<Rightarrow> a = None | Some j \<Rightarrow> \<exists>n. a = Some n \<and> j = JNum n)"
  by (cases v) (auto simp: z_optional_def z_number_def split: sum.splits option.splits json.splits)

lemma optional_string_field:
  "z_optional z_string v = Inr a \<Longrightarrow>
     (case v of None \<Rightarrow> a = None | Some j \<Rightarrow> \<exists>s. a = Some s \<and> j = JStr s)"
  by (cases v) (auto simp: z_optional_def z_string_def split: sum.splits option.splits json.splits)

text \<open>
  C8, amended. In every output the schema accepts, \<open>technicalSkills\<close>, \<open>frameworks\<close>,
  \<open>languages\<close>, \<open>tools\<close> and \<open>softSkills\<close> are lists: the empty list when the raw
  output lacks the property, the raw array of strings otherwise. \<open>education\<close> and
  \<open>certifications\<close>, like the scalars \<open>yearsOfExperience\<close> and \<open>currentRole\<close>, are absent
  exactly when the raw output lacks them.
\<close>

theorem ExtractedSkillsSchema_fields:
  assumes "ExtractedSkillsSchema_parse raw = Inr p"
  shows "(case get_prop raw ''technicalSkills'' of
            None \<Rightarrow> technicalSkills p = [] | Some j \<Rightarrow> j = JArr (map JStr (technicalSkills p)))
       \<and> (case get_prop raw ''frameworks'' of
            None \<Rightarrow> frameworks p = [] | Some j \<Rightarrow> j = JArr (map JStr (frameworks p)))
       \<and> (case get_prop raw ''languages'' of
            None \<Rightarrow> languages p = [] | Some j \<Rightarrow> j = JArr (map JStr (languages p)))
       \<and> (case get_prop raw ''tools'' of
            None \<Rightarrow> tools p = [] | Some j \<Rightarrow> j = JArr (map JStr (tools p)))
       \<and> (case get_prop raw ''softSkills'' of
            None \<Rightarrow> softSkills p = [] | Some j \<Rightarrow> j = JArr (map JStr (softSkills p)))
       \<and> (case get_prop raw ''education'' of
            None \<Rightarrow> education p = None
          | Some j \<Rightarrow> \<exists>xs. education p = Some xs \<and> j = JArr (map JStr xs))
       \<and> (case get_prop raw ''certifications'' of
            None \<Rightarrow> certifications p = None
          | Some j \<Rightarrow> \<exists>xs. certifications p = Some xs \<and> j = JArr (map JStr xs))
       \<and> (case get_prop raw ''yearsOfExperience'' of
            None \<Rightarrow> yearsOfExperience p = None
          | Some j \<Rightarrow> \<exists>n. yearsOfExperience p = Some n \<and> j = JNum n)
       \<and> (case get_prop raw ''currentRole'' of
            None \<Rightarrow> currentRole p = None
          | Some j \<Rightarrow> \<exists>s. currentRole p = Some s \<and> j = JStr s)"
  using ExtractedSkillsSchema_parse_Inr [OF assms]
  by (intro conjI default_list_field optional_list_field optional_number_field
        optional_string_field)

theorem ExtractedSkillsSchema_fields_witness:
  "ExtractedSkillsSchema_parse (JObj [(''tools'', JArr [JStr ''Git''])]) = Inr (git_only)
   \<and> technicalSkills git_only = [] \<and> education git_only = None"
proof -
  have h: "ExtractedSkillsSchema_parse (JObj [(''tools'', JArr [JStr ''Git''])]) = Inr git_only"
    by (simp add: ExtractedSkillsSchema_parse_def get_prop_def under_def z_default_def
          z_optional_def z_array_string_def z_string_def issues_of_def git_only_def)
  from ExtractedSkillsSchema_fields [OF h] h show ?thesis
    by (simp add: get_prop_def)
qed

section \<open>Validation comes first\<close>

lemma issues_of_under_Inl: "issues_of (under k (Inl (i # is))) \<noteq> []"
  by (simp add: issues_of_def under_def)

lemma z_string_min_issue:
  "z_string_min n m v = Inr s \<Longrightarrow> v = Some (JStr s) \<and> n \<le> length s"
  by (auto simp: z_string_min_def z_string_def split: option.splits json.splits if_splits)

lemma z_string_min_cases:
  "(\<exists>s. z_string_min n m v = Inr s) \<or> (\<exists>i is. z_string_min n m v = Inl (i # is))"
  by (auto simp: z_string_min_def z_string_def split: option.splits json.splits if_splits)

lemma z_optional_string_cases:
  "(\<exists>s. z_optional z_string v = Inr s) \<or> (\<exists>i is. z_optional z_string v = Inl (i # is))"
  by (auto simp: z_optional_def z_string_def split: option.splits json.splits if_splits)

lemma issues_of_Inr: "issues_of (under k (Inr v)) = []"
  by (simp add: issues_of_def under_def)

lemma JobMatchRequestSchema_issues_nonempty:
  "JobMatchRequestSchema_safeParse body = Inl issues \<Longrightarrow> issues \<noteq> []"
proof (cases body)
  case (JObj kvs)
  assume a: "JobMatchRequestSchema_safeParse body = Inl issues"
  show ?thesis
    using a JObj
      z_string_min_cases [of 1 "''Resume ID is required''" "get_prop body ''resumeId''"]
      z_string_min_cases [of 1 "''Job title is required''" "get_prop body ''jobTitle''"]
      z_string_min_cases [of 50 "''Job description must be at least 50 characters''"
         "get_prop body ''jobDescription''"]
      z_optional_string_cases [of "get_prop body ''company''"]
    by (auto simp: JobMatchRequestSchema_safeParse_def Let_def under_def issues_of_def
          split: sum.splits)
qed (auto simp: JobMatchRequestSchema_safeParse_def)

lemma JobMatchRequestSchema_accepts:
  assumes "JobMatchRequestSchema_safeParse body = Inr req"
  shows "get_prop body ''resumeId'' = Some (JStr (resumeId req)) \<and> 1 \<le> length (resumeId req)
       \<and> get_prop body ''jobTitle'' = Some (JStr (jobTitle req)) \<and> 1 \<le> length (jobTitle req)
       \<and> get_prop body ''jobDescription'' = Some (JStr (jobDescription req))
       \<and> 50 \<le> length (jobDescription req)"
  using assms
  by (cases body)
     (auto simp: JobMatchRequestSchema_safeParse_def Let_def under_def
        split: sum.splits dest!: z_string_min_issue)

lemma matchJob_rejects:
  assumes "JobMatchRequestSchema_safeParse body = Inl issues"
  shows "\<exists>issue. matchJob env body w = (Response 400 (Failure (MessageOf issue)), w)"
  using assms JobMatchRequestSchema_issues_nonempty [OF assms]
  by (cases issues) (simp_all add: matchJob_def)

text \<open>
  C5. A request whose job description is a string of fewer than 50 characters, or whose
  resume identifier or job title is the empty string, or that the request schema refuses
  for any other reason, is answered with status 400 and the state is returned as it was: no event is recorded (no call of a model, of the
  index or of the record store) and no row or vector is added.
\<close>

theorem matchJob_validates_first:
  assumes "(\<exists>d. get_prop body ''jobDescription'' = Some (JStr d) \<and> length d < 50)
         \<or> get_prop body ''resumeId'' = Some (JStr [])
         \<or> get_prop body ''jobTitle'' = Some (JStr [])
         \<or> (\<exists>issues. JobMatchRequestSchema_safeParse body = Inl issues)"
  shows "\<exists>issue. matchJob env body w = (Response 400 (Failure (MessageOf issue)), w)"
proof (cases "JobMatchRequestSchema_safeParse body")
  case (Inl issues)
  then show ?thesis by (rule matchJob_rejects)
next
  case (Inr req)
  from JobMatchRequestSchema_accepts [OF Inr] assms Inr show ?thesis by auto
qed

theorem matchJob_validates_first_witness:
  "(\<exists>d. get_prop short_body ''jobDescription'' = Some (JStr d) \<and> length d < 50)
   \<and> (\<exists>issue. matchJob demo_env short_body demo_world
                  = (Response 400 (Failure (MessageOf issue)), demo_world))
   \<and> events (snd (matchJob demo_env short_body demo_world)) = []"
proof -
  have h: "\<exists>d. get_prop short_body ''jobDescription'' = Some (JStr d) \<and> length d < 50"
    by (simp add: short_body_def get_prop_def)
  then have "(\<exists>d. get_prop short_body ''jobDescription'' = Some (JStr d) \<and> length d < 50)
         \<or> get_prop short_body ''resumeId'' = Some (JStr [])
         \<or> get_prop short_body ''jobTitle'' = Some (JStr [])
         \<or> (\<exists>issues. JobMatchRequestSchema_safeParse short_body = Inl issues)"
    by blast
  from matchJob_validates_first [OF this, of demo_env demo_world] h show ?thesis
    by (auto simp: demo_world_def)
qed

section \<open>What each call leaves unchanged\<close>

lemma same_store_refl [simp]: "same_store w w"
  by (simp add: same_store_def)

lemma same_store_trans: "same_store a b \<Longrightarrow> same_store b c \<Longrightarrow> same_store a c"
  by (simp add: same_store_def)

lemma same_store_record_event [simp]: "same_store w (record_event e w)"
  by (simp add: same_store_def record_event_def)

lemma initializeIndex_store: "initializeIndex env w = (r, w') \<Longrightarrow> same_store w w'"
  by (auto simp: initializeIndex_def Let_def same_store_def record_event_def
        split: if_splits sum.splits option.splits)

lemma extractSkills_store: "extractSkills env t w = (r, w') \<Longrightarrow> same_store w w'"
  by (auto simp: extractSkills_def Let_def split: sum.splits)

lemma generateEmbedding_store: "generateEmbedding env t w = (r, w') \<Longrightarrow> same_store w w'"
  by (auto simp: generateEmbedding_def Let_def split: sum.splits)

lemma generateInterviewQuestions_store:
  "generateInterviewQuestions env g t ms w = (r, w') \<Longrightarrow> same_store w w'"
  by (auto simp: generateInterviewQuestions_def Let_def split: sum.splits option.splits)

lemma generateRecommendations_store:
  "generateRecommendations env g t w = (r, w') \<Longrightarrow> same_store w w'"
  by (auto simp: generateRecommendations_def Let_def split: sum.splits option.splits if_splits)

lemma findSimilar_store: "findSimilar env e k f w = (r, w') \<Longrightarrow> same_store w w'"
  by (auto simp: findSimilar_def Let_def split: sum.splits prod.splits
        dest!: initializeIndex_store intro: same_store_trans)

lemma resume_findUnique_store: "resume_findUnique i w = (r, w') \<Longrightarrow> same_store w w'"
  by (auto simp: resume_findUnique_def)

lemma jobDescription_findUnique_store:
  "jobDescription_findUnique i w = (r, w') \<Longrightarrow> same_store w w'"
  by (auto simp: jobDescription_findUnique_def)

lemma resume_findMany_in_store: "resume_findMany_in ids w = (r, w') \<Longrightarrow> same_store w w'"
  by (auto simp: resume_findMany_in_def)

lemma upsertJob_store:
  "upsertJob env i e s t w = (r, w') \<Longrightarrow>
     resumes w' = resumes w \<and> jobs w' = jobs w \<and> matches w' = matches w"
  by (auto simp: upsertJob_def Let_def same_store_def record_event_def
        split: sum.splits prod.splits option.splits dest!: initializeIndex_store)

lemma upsertJob_Inr:
  "upsertJob env i e s t w = (Inr v, w') \<Longrightarrow> v = ''job_'' @ i"
  by (auto simp: upsertJob_def Let_def split: sum.splits prod.splits option.splits)

lemma jobDescription_create_store:
  "jobDescription_create env t c d s w = (r, w') \<Longrightarrow>
     resumes w' = resumes w \<and> matches w' = matches w \<and> vectors w' = vectors w"
  by (auto simp: jobDescription_create_def Let_def record_event_def split: if_splits)

lemma jobDescription_create_Inr:
  "jobDescription_create env t c d s w = (Inr j, w') \<Longrightarrow>
     job_id j \<notin> set (map job_id (jobs w)) \<and> jobs w' = jobs w @ [j]"
  by (auto simp: jobDescription_create_def Let_def record_event_def split: if_splits)

lemma jobDescription_update_store:
  "jobDescription_update i v w = (r, w') \<Longrightarrow>
     resumes w' = resumes w \<and> matches w' = matches w \<and> vectors w' = vectors w
     \<and> map job_id (jobs w') = map job_id (jobs w)"
  by (auto simp: jobDescription_update_def Let_def record_event_def comp_def split: if_splits)


lemma matchJob_created:
  assumes "matchJob env body w = (Response 201 (MatchCreated d), w')"
  obtains req resume jobSkills and job :: JobDescription
    and resumeEmbedding w7 hits w8 questions recs w10 m
  where "JobMatchRequestSchema_safeParse body = Inr req"
    and "find (\<lambda>r. resume_id r = resumeId req) (resumes w) = Some resume"
    and "job_id job \<notin> set (map job_id (jobs w))"
    and "resumes w7 = resumes w" and "matches w7 = matches w"
    and "map job_id (jobs w7) = map job_id (jobs w) @ [job_id job]"
    and "findSimilar env resumeEmbedding (Some 10) (Some ''job'') w7 = (Inr hits, w8)"
    and "same_store w8 w10"
    and "jobMatch_upsert env (resumeId req) (job_id job)
          (matchJob_similarityScore (''job_'' @ job_id job) hits)
          (analyzeSkillGaps (String_toLowerCase env) (resume_extractedSkills resume) jobSkills)
          (matched (analyzeSkillGaps (String_toLowerCase env) (resume_extractedSkills resume) jobSkills))
          questions recs w10 = (Inr m, w')"
    and "d = \<lparr>res_id = match_id m, res_resumeId = resumeId req, res_jobId = job_id job,
            res_jobTitle = jobTitle req,
            res_similarityScore = matchJob_similarityScore (''job_'' @ job_id job) hits,
            res_skillGaps =
              analyzeSkillGaps (String_toLowerCase env) (resume_extractedSkills resume) jobSkills,
            res_matchedSkills =
              matched (analyzeSkillGaps (String_toLowerCase env) (resume_extractedSkills resume) jobSkills),
            res_interviewQuestions = questions, res_recommendations = recs\<rparr>"
proof -
  from assms obtain req where req: "JobMatchRequestSchema_safeParse body = Inr req"
    by (auto simp: matchJob_def split: sum.splits list.splits)
  obtain ro w1 where s1: "resume_findUnique (resumeId req) w = (ro, w1)" by force
  from assms req s1 obtain resume where ro: "ro = Some resume"
    by (cases ro) (auto simp: matchJob_def)
  obtain r2 w2 where s2: "extractSkills env (jobDescription req) w1 = (r2, w2)" by force
  from assms req s1 ro s2 obtain jobSkills where r2: "r2 = Inr jobSkills"
    by (cases r2) (auto simp: matchJob_def)
  obtain r3 w3 where s3: "generateEmbedding env (jobDescription req) w2 = (r3, w3)" by force
  from assms req s1 ro s2 r2 s3 obtain jobEmbedding where r3: "r3 = Inr jobEmbedding"
    by (cases r3) (auto simp: matchJob_def)
  obtain r4 w4 where s4: "jobDescription_create env (jobTitle req)
             (case company req of None \<Rightarrow> None | Some c \<Rightarrow> if c = [] then None else Some c)
             (jobDescription req) jobSkills w3 = (r4, w4)" by force
  from assms req s1 ro s2 r2 s3 r3 s4 obtain job where r4: "r4 = Inr job"
    by (cases r4) (auto simp: matchJob_def)
  obtain r5 w5 where s5: "upsertJob env (job_id job) jobEmbedding (combinedSkills jobSkills)
      (jobTitle req) w4 = (r5, w5)" by force
  from assms req s1 ro s2 r2 s3 r3 s4 r4 s5 obtain jobVectorId where r5: "r5 = Inr jobVectorId"
    by (cases r5) (auto simp: matchJob_def)
  obtain r6 w6 where s6: "jobDescription_update (job_id job) jobVectorId w5 = (r6, w6)" by force
  from assms req s1 ro s2 r2 s3 r3 s4 r4 s5 r5 s6 obtain u where r6: "r6 = Inr u"
    by (cases r6) (auto simp: matchJob_def)
  obtain r7 w7 where s7: "generateEmbedding env (resume_rawText resume) w6 = (r7, w7)" by force
  from assms req s1 ro s2 r2 s3 r3 s4 r4 s5 r5 s6 r6 s7
  obtain resumeEmbedding where r7: "r7 = Inr resumeEmbedding"
    by (cases r7) (auto simp: matchJob_def)
  obtain r8 w8 where s8: "findSimilar env resumeEmbedding (Some 10) (Some ''job'') w7 = (r8, w8)"
    by force
  from assms req s1 ro s2 r2 s3 r3 s4 r4 s5 r5 s6 r6 s7 r7 s8
  obtain hits where r8: "r8 = Inr hits"
    by (cases r8) (auto simp: matchJob_def)
  define gaps where
    "gaps = analyzeSkillGaps (String_toLowerCase env) (resume_extractedSkills resume) jobSkills"
  obtain questions w9 where
    s9: "generateInterviewQuestions env gaps (jobTitle req) (matched gaps) w8 = (questions, w9)"
    by force
  obtain recs w10 where
    s10: "generateRecommendations env gaps (jobTitle req) w9 = (recs, w10)" by force
  obtain r11 w11 where s11: "jobMatch_upsert env (resumeId req) (job_id job)
      (matchJob_similarityScore jobVectorId hits) gaps (matched gaps) questions recs w10
      = (r11, w11)" by force
  from assms req s1 ro s2 r2 s3 r3 s4 r4 s5 r5 s6 r6 s7 r7 s8 r8 s9 s10 s11
  have fin: "\<exists>m. r11 = Inr m \<and> w' = w11
      \<and> d = \<lparr>res_id = match_id m, res_resumeId = resumeId req, res_jobId = job_id job,
            res_jobTitle = jobTitle req,
            res_similarityScore = matchJob_similarityScore jobVectorId hits,
            res_skillGaps = gaps, res_matchedSkills = matched gaps,
            res_interviewQuestions = questions, res_recommendations = recs\<rparr>"
    by (cases r11) (auto simp: matchJob_def Let_def gaps_def)
  then obtain m where m: "r11 = Inr m" "w' = w11"
     and d: "d = \<lparr>res_id = match_id m, res_resumeId = resumeId req, res_jobId = job_id job,
            res_jobTitle = jobTitle req,
            res_similarityScore = matchJob_similarityScore jobVectorId hits,
            res_skillGaps = gaps, res_matchedSkills = matched gaps,
            res_interviewQuestions = questions, res_recommendations = recs\<rparr>"
    by blast
  have vid: "jobVectorId = ''job_'' @ job_id job"
    using s5 r5 by (auto dest: upsertJob_Inr)
  have f: "find (\<lambda>r. resume_id r = resumeId req) (resumes w) = Some resume"
    using s1 ro by (simp add: resume_findUnique_def)
  have st1: "same_store w w1" using s1 by (rule resume_findUnique_store)
  have st2: "same_store w1 w2" using s2 by (rule extractSkills_store)
  have st3: "same_store w2 w3" using s3 by (rule generateEmbedding_store)
  have st03: "same_store w w3" using st1 st2 st3 by (blast intro: same_store_trans)
  have c4: "job_id job \<notin> set (map job_id (jobs w3))" "jobs w4 = jobs w3 @ [job]"
    using s4 r4 by (auto dest: jobDescription_create_Inr)
  have k4: "resumes w4 = resumes w3" "matches w4 = matches w3"
    using s4 by (auto dest: jobDescription_create_store)
  have k5: "resumes w5 = resumes w4" "jobs w5 = jobs w4" "matches w5 = matches w4"
    using s5 by (auto dest: upsertJob_store)
  have k6: "resumes w6 = resumes w5" "matches w6 = matches w5"
     "map job_id (jobs w6) = map job_id (jobs w5)"
    using s6 by (auto dest: jobDescription_update_store)
  have st7: "same_store w6 w7" using s7 by (rule generateEmbedding_store)
  have w7: "resumes w7 = resumes w" "matches w7 = matches w"
    "map job_id (jobs w7) = map job_id (jobs w) @ [job_id job]"
    "job_id job \<notin> set (map job_id (jobs w))"
    using st03 c4 k4 k5 k6 st7 by (simp_all add: same_store_def)
  have st9: "same_store w8 w9" using s9 by (rule generateInterviewQuestions_store)
  have st10: "same_store w9 w10" using s10 by (rule generateRecommendations_store)
  have st810: "same_store w8 w10" using st9 st10 by (rule same_store_trans)
  have s8': "findSimilar env resumeEmbedding (Some 10) (Some ''job'') w7 = (Inr hits, w8)"
    using s8 r8 by simp
  have s11': "jobMatch_upsert env (resumeId req) (job_id job)
      (matchJob_similarityScore (''job_'' @ job_id job) hits) gaps (matched gaps) questions recs
      w10 = (Inr m, w')"
    using s11 m vid by simp
  have d': "d = \<lparr>res_id = match_id m, res_resumeId = resumeId req, res_jobId = job_id job,
            res_jobTitle = jobTitle req,
            res_similarityScore = matchJob_similarityScore (''job_'' @ job_id job) hits,
            res_skillGaps = gaps, res_matchedSkills = matched gaps,
            res_interviewQuestions = questions, res_recommendations = recs\<rparr>"
    using d vid by simp
  from req f w7(4) w7(1) w7(2) w7(3) s8' st810 s11' d' show ?thesis
    unfolding gaps_def by (rule that)
qed

section \<open>The match orchestration\<close>

lemmas matchJob_steps =
  matchJob_def JobMatchRequestSchema_safeParse_def get_prop_def under_def z_string_min_def
  z_string_def z_optional_def issues_of_def resume_findUnique_def record_event_def
  extractSkills_def ExtractedSkillsSchema_parse_def z_default_def z_array_string_def
  z_number_def generateEmbedding_def jobDescription_create_def upsertJob_def
  initializeIndex_def store_vector_def jobDescription_update_def findSimilar_def
  toVectorQueryResult_def or_number_def or_string_def matchJob_similarityScore_def
  calculateSimilarityPercentage_values analyzeSkillGaps_def combinedSkills_def
  ascii_toLowerCase_def String_includes_def generateInterviewQuestions_def array_or_prop_def
  getDefaultQuestions_def generateRecommendations_def getDefaultRecommendations_def
  jobMatch_upsert_def skills_only_def Let_def sublist_code prefix_code

lemmas demo_defs =
  demo_env_def demo_world_def demo_body_def demo_resume_def demo_gaps_def
  demo_recommendations_def demo_job_def demo_job_vector_def demo_match_def
  demo_response_def demo_world_1_def

lemma matchJob_demo:
  "matchJob demo_env demo_body demo_world = (Response 201 (MatchCreated demo_response), demo_world_1)"
  by (simp add: matchJob_steps demo_defs)


lemma matchJob_similarityScore_absent:
  "list_all (\<lambda>h. vqr_id h \<noteq> v) hits \<Longrightarrow> matchJob_similarityScore v hits = Num 50"
proof -
  assume "list_all (\<lambda>h. vqr_id h \<noteq> v) hits"
  then have "find (\<lambda>r. vqr_id r = v) hits = None"
    by (simp add: find_None_iff list_all_iff)
  then show ?thesis
    by (simp add: matchJob_similarityScore_def or_number_def calculateSimilarityPercentage_values)
qed

lemma jobMatch_upsert_Inr:
  assumes "jobMatch_upsert env rid jid sc g ms q r w = (Inr m, w')"
  shows "m \<in> set (matches w')" and "match_resumeId m = rid" and "match_jobId m = jid"
    and "match_similarityScore m = sc"
proof -
  show "m \<in> set (matches w')"
  proof (cases "find (\<lambda>m. match_resumeId m = rid \<and> match_jobId m = jid) (matches w)")
    case None
    with assms show ?thesis
      by (auto simp: jobMatch_upsert_def Let_def record_event_def split: if_splits)
  next
    case (Some old)
    then have "old \<in> set (matches w)" "match_resumeId old = rid \<and> match_jobId old = jid"
      by (auto simp: find_Some_iff)
    with assms Some show ?thesis
      by (auto simp: jobMatch_upsert_def Let_def record_event_def image_iff intro!: bexI [of _ old])
  qed
  show "match_resumeId m = rid" "match_jobId m = jid" "match_similarityScore m = sc"
    using assms
    by (auto simp: jobMatch_upsert_def Let_def find_Some_iff split: option.splits if_splits)
qed

lemma jobMatch_upsert_succeeds:
  assumes "prisma_cuid env (events w) \<notin> set (map match_id (matches w))"
  shows "\<exists>m w'. jobMatch_upsert env rid jid sc g ms q r w = (Inr m, w')"
  using assms by (auto simp: jobMatch_upsert_def Let_def split: option.splits)

text \<open>
  What a created match says of the results the run received: its score is that of the
  job's own vector among them, and 50 when the vector is not among them.
\<close>

lemma matchJob_created_score:
  assumes "matchJob env body w = (Response 201 (MatchCreated d), w')"
  shows "\<exists>resumeEmbedding w7 hits w8.
            findSimilar env resumeEmbedding (Some 10) (Some ''job'') w7 = (Inr hits, w8)
          \<and> res_similarityScore d = matchJob_similarityScore (''job_'' @ res_jobId d) hits
          \<and> (list_all (\<lambda>h. vqr_id h \<noteq> ''job_'' @ res_jobId d) hits \<longrightarrow>
                res_similarityScore d = Num 50)"
proof -
  from assms obtain req :: JobMatchRequest and resume :: Resume and jobSkills
    and job :: JobDescription and resumeEmbedding w7 hits w8 questions recs w10
    and m :: JobMatch
    where q: "findSimilar env resumeEmbedding (Some 10) (Some ''job'') w7 = (Inr hits, w8)"
      and d: "d = \<lparr>res_id = match_id m, res_resumeId = resumeId req, res_jobId = job_id job,
            res_jobTitle = jobTitle req,
            res_similarityScore = matchJob_similarityScore (''job_'' @ job_id job) hits,
            res_skillGaps =
              analyzeSkillGaps (String_toLowerCase env) (resume_extractedSkills resume) jobSkills,
            res_matchedSkills =
              matched (analyzeSkillGaps (String_toLowerCase env) (resume_extractedSkills resume) jobSkills),
            res_interviewQuestions = questions, res_recommendations = recs\<rparr>"
    by (rule matchJob_created) blast
  have sc: "res_similarityScore d = matchJob_similarityScore (''job_'' @ res_jobId d) hits"
    by (simp add: d)
  have "res_similarityScore d = Num 50"
    if "list_all (\<lambda>h. vqr_id h \<noteq> ''job_'' @ res_jobId d) hits"
    using that sc by (simp add: matchJob_similarityScore_absent)
  with q sc show ?thesis by blast
qed

text \<open>
  C3, amended. When every step up to the top-10 query succeeds and the results of the
  query do not contain the job's own vector, the raw score defaults to 0 and the
  similarity score is \<open>calculateSimilarityPercentage 0\<close>, that is 50, not 0. The run goes
  on: the match is stored with the score 50 and the response is 201 with the score 50,
  a result and not an error. (The identifier the store generates for the match is
  taken to be unused.)
\<close>

theorem matchJob_missing_hit:
  assumes "JobMatchRequestSchema_safeParse body = Inr req"
    and "resume_findUnique (resumeId req) w = (Some resume, w1)"
    and "extractSkills env (jobDescription req) w1 = (Inr jobSkills, w2)"
    and "generateEmbedding env (jobDescription req) w2 = (Inr jobEmbedding, w3)"
    and "jobDescription_create env (jobTitle req)
           (case company req of None \<Rightarrow> None | Some c \<Rightarrow> if c = [] then None else Some c)
           (jobDescription req) jobSkills w3 = (Inr job, w4)"
    and "upsertJob env (job_id job) jobEmbedding (combinedSkills jobSkills) (jobTitle req) w4
           = (Inr jobVectorId, w5)"
    and "jobDescription_update (job_id job) jobVectorId w5 = (Inr u, w6)"
    and "generateEmbedding env (resume_rawText resume) w6 = (Inr resumeEmbedding, w7)"
    and "findSimilar env resumeEmbedding (Some 10) (Some ''job'') w7 = (Inr similarResults, w8)"
    and "list_all (\<lambda>r. vqr_id r \<noteq> jobVectorId) similarResults"
    and "skillGaps
           = analyzeSkillGaps (String_toLowerCase env) (resume_extractedSkills resume) jobSkills"
    and "generateInterviewQuestions env skillGaps (jobTitle req) (matched skillGaps) w8
           = (interviewQuestions, w9)"
    and "generateRecommendations env skillGaps (jobTitle req) w9 = (recommendations, w10)"
    and "prisma_cuid env (events w10) \<notin> set (map match_id (matches w10))"
  shows "\<exists>m w11.
      matchJob env body w
        = (Response 201
             (MatchCreated
                \<lparr>res_id = match_id m, res_resumeId = resumeId req, res_jobId = job_id job,
                 res_jobTitle = jobTitle req, res_similarityScore = Num 50,
                 res_skillGaps = skillGaps, res_matchedSkills = matched skillGaps,
                 res_interviewQuestions = interviewQuestions,
                 res_recommendations = recommendations\<rparr>),
           w11)
    \<and> matchJob_similarityScore jobVectorId similarResults = calculateSimilarityPercentage 0
    \<and> calculateSimilarityPercentage 0 = Num 50
    \<and> m \<in> set (matches w11) \<and> match_resumeId m = resumeId req \<and> match_jobId m = job_id job
    \<and> match_similarityScore m = Num 50"
proof -
  have sc: "matchJob_similarityScore jobVectorId similarResults = Num 50"
    using assms(10) by (rule matchJob_similarityScore_absent)
  have zero: "calculateSimilarityPercentage 0 = Num 50"
    by (rule calculateSimilarityPercentage_values)
  from jobMatch_upsert_succeeds [OF assms(14)] obtain m w11
    where up: "jobMatch_upsert env (resumeId req) (job_id job) (Num 50) skillGaps
             (matched skillGaps) interviewQuestions recommendations w10 = (Inr m, w11)"
    by blast
  have q: "generateInterviewQuestions env
             (analyzeSkillGaps (String_toLowerCase env) (resume_extractedSkills resume) jobSkills)
             (jobTitle req)
             (matched (analyzeSkillGaps (String_toLowerCase env) (resume_extractedSkills resume)
                jobSkills)) w8
           = (interviewQuestions, w9)"
    using assms(12) unfolding assms(11) .
  have r: "generateRecommendations env
             (analyzeSkillGaps (String_toLowerCase env) (resume_extractedSkills resume) jobSkills)
             (jobTitle req) w9 = (recommendations, w10)"
    using assms(13) unfolding assms(11) .
  have up': "jobMatch_upsert env (resumeId req) (job_id job) (Num 50)
             (analyzeSkillGaps (String_toLowerCase env) (resume_extractedSkills resume) jobSkills)
             (matched (analyzeSkillGaps (String_toLowerCase env) (resume_extractedSkills resume)
                jobSkills))
             interviewQuestions recommendations w10 = (Inr m, w11)"
    using up unfolding assms(11) .
  have run: "matchJob env body w
        = (Response 201
             (MatchCreated
                \<lparr>res_id = match_id m, res_resumeId = resumeId req, res_jobId = job_id job,
                 res_jobTitle = jobTitle req, res_similarityScore = Num 50,
                 res_skillGaps = skillGaps, res_matchedSkills = matched skillGaps,
                 res_interviewQuestions = interviewQuestions,
                 res_recommendations = recommendations\<rparr>),
           w11)"
    unfolding assms(11)
    by (simp add: matchJob_def Let_def assms(1-9) sc q r up')
  from jobMatch_upsert_Inr [OF up] run sc zero show ?thesis
    by (intro exI [of _ m] exI [of _ w11]) simp
qed

lemma matchJob_busy:
  "matchJob busy_env demo_body demo_world = (Response 201 (MatchCreated demo_response), demo_world_1)"
  by (simp add: matchJob_steps demo_defs busy_env_def other_job_hit_def)

theorem matchJob_missing_hit_witness:
  "pinecone_query busy_env (take 8 (events demo_world_1)) [1, 0] (Some 10) (Some ''job'')
     = Inr (Some [other_job_hit])
   \<and> list_all (\<lambda>r. vqr_id r \<noteq> ''job_ccc'') [toVectorQueryResult other_job_hit]
   \<and> (\<exists>d w'. matchJob busy_env demo_body demo_world = (Response 201 (MatchCreated d), w')
         \<and> res_jobId d = ''ccc'' \<and> res_similarityScore d = Num 50
         \<and> (\<exists>m. m \<in> set (matches w') \<and> match_jobId m = ''ccc''
                \<and> match_similarityScore m = Num 50))"
proof -
  let ?d = "''We are hiring a backend engineer who knows Python and AWS.''"
  let ?js = "skills_only [''Python'', ''AWS'']"
  let ?w1 = "snd (resume_findUnique ''r1'' demo_world)"
  let ?w2 = "snd (extractSkills busy_env ?d ?w1)"
  let ?w3 = "snd (generateEmbedding busy_env ?d ?w2)"
  let ?w4 = "snd (jobDescription_create busy_env ''Backend Engineer'' None ?d ?js ?w3)"
  let ?w5 = "snd (upsertJob busy_env ''ccc'' [1, 0] [''Python'', ''AWS''] ''Backend Engineer'' ?w4)"
  let ?w6 = "snd (jobDescription_update ''ccc'' ''job_ccc'' ?w5)"
  let ?w7 = "snd (generateEmbedding busy_env ''Python developer, Docker'' ?w6)"
  let ?w8 = "snd (findSimilar busy_env [1, 0] (Some 10) (Some ''job'') ?w7)"
  let ?w9 = "snd (generateInterviewQuestions busy_env demo_gaps ''Backend Engineer'' [''Python''] ?w8)"
  let ?w10 = "snd (generateRecommendations busy_env demo_gaps ''Backend Engineer'' ?w9)"
  note defs = matchJob_steps demo_defs busy_env_def other_job_hit_def demo_request_def
    demo_job_created_def prod_eq_iff
  have s0: "JobMatchRequestSchema_safeParse demo_body = Inr demo_request"
    by (simp add: defs)
  have s1: "resume_findUnique (resumeId demo_request) demo_world = (Some demo_resume, ?w1)"
    by (simp add: defs)
  have s2: "extractSkills busy_env (jobDescription demo_request) ?w1 = (Inr ?js, ?w2)"
    by (simp add: defs)
  have s3: "generateEmbedding busy_env (jobDescription demo_request) ?w2 = (Inr [1, 0], ?w3)"
    by (simp add: defs)
  have s4: "jobDescription_create busy_env (jobTitle demo_request)
           (case company demo_request of None \<Rightarrow> None
            | Some c \<Rightarrow> if c = [] then None else Some c)
           (jobDescription demo_request) ?js ?w3 = (Inr demo_job_created, ?w4)"
    by (simp add: defs)
  have s5: "upsertJob busy_env (job_id demo_job_created) [1, 0] (combinedSkills ?js)
           (jobTitle demo_request) ?w4 = (Inr ''job_ccc'', ?w5)"
    by (simp add: defs)
  have s6: "jobDescription_update (job_id demo_job_created) ''job_ccc'' ?w5 = (Inr (), ?w6)"
    by (simp add: defs)
  have s7: "generateEmbedding busy_env (resume_rawText demo_resume) ?w6 = (Inr [1, 0], ?w7)"
    by (simp add: defs)
  have s8: "findSimilar busy_env [1, 0] (Some 10) (Some ''job'') ?w7
              = (Inr [toVectorQueryResult other_job_hit], ?w8)"
    by (simp add: defs)
  have absent: "list_all (\<lambda>r. vqr_id r \<noteq> ''job_ccc'') [toVectorQueryResult other_job_hit]"
    by (simp add: defs)
  have gaps: "demo_gaps = analyzeSkillGaps (String_toLowerCase busy_env)
                 (resume_extractedSkills demo_resume) ?js"
    by (simp add: defs)
  have s9: "generateInterviewQuestions busy_env demo_gaps (jobTitle demo_request)
              (matched demo_gaps) ?w8 = ([JStr ''Why Python?''], ?w9)"
    by (simp add: defs)
  have s10: "generateRecommendations busy_env demo_gaps (jobTitle demo_request) ?w9
              = (demo_recommendations, ?w10)"
    by (simp add: defs)
  have fresh: "prisma_cuid busy_env (events ?w10) \<notin> set (map match_id (matches ?w10))"
    by (simp add: defs)
  have query: "pinecone_query busy_env (take 8 (events demo_world_1)) [1, 0] (Some 10)
                 (Some ''job'') = Inr (Some [other_job_hit])"
    by (simp add: busy_env_def demo_env_def)
  from matchJob_missing_hit [OF s0 s1 s2 s3 s4 s5 s6 s7 s8 absent gaps s9 s10 fresh]
  obtain m w11 where run: "matchJob busy_env demo_body demo_world
        = (Response 201
             (MatchCreated
                \<lparr>res_id = match_id m, res_resumeId = resumeId demo_request,
                 res_jobId = job_id demo_job_created,
                 res_jobTitle = jobTitle demo_request, res_similarityScore = Num 50,
                 res_skillGaps = demo_gaps, res_matchedSkills = matched demo_gaps,
                 res_interviewQuestions = [JStr ''Why Python?''],
                 res_recommendations = demo_recommendations\<rparr>),
           w11)"
    and m: "m \<in> set (matches w11)" "match_jobId m = job_id demo_job_created"
      "match_similarityScore m = Num 50"
    by blast
  have jid: "job_id demo_job_created = ''ccc''"
    by (simp add: demo_job_created_def demo_job_def)
  from run m jid have "\<exists>d w'. matchJob busy_env demo_body demo_world = (Response 201 (MatchCreated d), w')
         \<and> res_jobId d = ''ccc'' \<and> res_similarityScore d = Num 50
         \<and> (\<exists>m. m \<in> set (matches w') \<and> match_jobId m = ''ccc''
                \<and> match_similarityScore m = Num 50)"
    by (intro exI [of _ "\<lparr>res_id = match_id m, res_resumeId = resumeId demo_request,
                 res_jobId = job_id demo_job_created,
                 res_jobTitle = jobTitle demo_request, res_similarityScore = Num 50,
                 res_skillGaps = demo_gaps, res_matchedSkills = matched demo_gaps,
                 res_interviewQuestions = [JStr ''Why Python?''],
                 res_recommendations = demo_recommendations\<rparr>"] exI [of _ w11]) auto
  with query absent show ?thesis by blast
qed

text \<open>
  C3, as stated, fails: in the run below the query filtered to jobs returns the vector
  of another job and not the job's own, the match is created, and its similarity score
  is 50, not 0.
\<close>

theorem matchJob_missing_hit_not_zero:
  "pinecone_query busy_env (take 8 (events demo_world_1)) [1, 0] (Some 10) (Some ''job'')
     = Inr (Some [other_job_hit])
   \<and> vqr_id (toVectorQueryResult other_job_hit) \<noteq> ''job_'' @ res_jobId demo_response
   \<and> matchJob busy_env demo_body demo_world
       = (Response 201 (MatchCreated demo_response), demo_world_1)
   \<and> res_similarityScore demo_response = Num 50
   \<and> res_similarityScore demo_response \<noteq> Num 0"
  using matchJob_busy
  by (simp add: busy_env_def demo_env_def demo_response_def other_job_hit_def
        toVectorQueryResult_def)

lemma same_store_unique_pairs: "same_store w w' \<Longrightarrow> unique_pairs w' = unique_pairs w"
  by (simp add: same_store_def unique_pairs_def)

lemma matches_unique_pairs: "matches w' = matches w \<Longrightarrow> unique_pairs w' = unique_pairs w"
  by (simp add: unique_pairs_def)

lemma jobMatch_upsert_jobs:
  "jobMatch_upsert env rid jid sc g ms q r w = (res, w') \<Longrightarrow>
     jobs w' = jobs w \<and> resumes w' = resumes w \<and> vectors w' = vectors w"
  by (auto simp: jobMatch_upsert_def Let_def record_event_def split: option.splits if_splits)

lemma jobMatch_upsert_unique_pairs:
  assumes "jobMatch_upsert env rid jid sc g ms q r w = (res, w')" and "unique_pairs w"
  shows "unique_pairs w'"
proof (cases "find (\<lambda>m. match_resumeId m = rid \<and> match_jobId m = jid) (matches w)")
  case None
  then have "(rid, jid) \<notin> set (map (\<lambda>m. (match_resumeId m, match_jobId m)) (matches w))"
    by (auto simp: find_None_iff)
  with assms None show ?thesis
    by (auto simp: jobMatch_upsert_def Let_def record_event_def unique_pairs_def
          split: if_splits)
next
  case (Some old)
  let ?m = "old\<lparr>match_similarityScore := sc, match_skillGaps := g,
                       match_matchedSkills := ms, match_interviewQuestions := q,
                       match_recommendations := r\<rparr>"
  have "map (\<lambda>m. (match_resumeId m, match_jobId m))
          (map (\<lambda>x. if match_resumeId x = rid \<and> match_jobId x = jid then ?m else x) (matches w))
        = map (\<lambda>m. (match_resumeId m, match_jobId m)) (matches w)"
    using Some by (auto simp: find_Some_iff)
  then have "distinct (map (\<lambda>m. (match_resumeId m, match_jobId m))
          (map (\<lambda>x. if match_resumeId x = rid \<and> match_jobId x = jid then ?m else x) (matches w)))"
    using assms(2) by (simp only: unique_pairs_def)
  with assms(1) Some show ?thesis
    by (auto simp: jobMatch_upsert_def Let_def record_event_def unique_pairs_def
          simp del: map_map)
qed

lemma jobMatch_upsert_fresh:
  assumes "jobMatch_upsert env rid jid sc g ms q r w = (Inr m, w')"
    and "list_all (\<lambda>x. match_jobId x \<noteq> jid) (matches w)"
  shows "matches w' = matches w @ [m]"
proof -
  from assms(2) have "find (\<lambda>m. match_resumeId m = rid \<and> match_jobId m = jid) (matches w) = None"
    by (auto simp: find_None_iff list_all_iff)
  with assms(1) show ?thesis
    by (auto simp: jobMatch_upsert_def Let_def record_event_def split: if_splits)
qed

lemma matchJob_unique_pairs:
  assumes "unique_pairs w"
  shows "unique_pairs (snd (matchJob env body w))"
  using assms
  apply (simp add: matchJob_def Let_def split: sum.splits list.splits prod.splits option.splits)
  apply (intro conjI allI impI)
  apply (auto dest!: resume_findUnique_store extractSkills_store generateEmbedding_store
      findSimilar_store generateInterviewQuestions_store generateRecommendations_store
      jobDescription_create_store upsertJob_store jobDescription_update_store
      simp: same_store_def unique_pairs_def)
  apply (drule jobMatch_upsert_unique_pairs, simp add: unique_pairs_def,
      simp add: unique_pairs_def)+
  done

lemma resume_delete_unique_pairs:
  "resume_delete i w = (r, w') \<Longrightarrow> unique_pairs w \<Longrightarrow> unique_pairs w'"
  by (auto simp: resume_delete_def Let_def record_event_def unique_pairs_def
        distinct_map_filter split: if_splits)

lemma jobDescription_delete_unique_pairs:
  "jobDescription_delete i w = (r, w') \<Longrightarrow> unique_pairs w \<Longrightarrow> unique_pairs w'"
  by (auto simp: jobDescription_delete_def Let_def record_event_def unique_pairs_def
        distinct_map_filter split: if_splits)

lemma deleteVector_store_rows:
  "deleteVector env v w = (r, w') \<Longrightarrow>
     resumes w' = resumes w \<and> jobs w' = jobs w \<and> matches w' = matches w"
  by (auto simp: deleteVector_def Let_def record_event_def same_store_def
        split: prod.splits sum.splits option.splits dest!: initializeIndex_store)

lemma deleteVector_if_set_rows:
  "deleteVector_if_set env v w = (r, w') \<Longrightarrow>
     resumes w' = resumes w \<and> jobs w' = jobs w \<and> matches w' = matches w"
  by (auto simp: deleteVector_if_set_def split: option.splits if_splits
        dest: deleteVector_store_rows)

lemma deleteResume_unique_pairs:
  assumes "unique_pairs w"
  shows "unique_pairs (snd (deleteResume env i w))"
  using assms
  apply (simp add: deleteResume_def split: sum.splits prod.splits option.splits)
  apply (intro conjI allI impI)
  apply (auto dest!: resume_findUnique_store deleteVector_if_set_rows
      dest: resume_delete_unique_pairs simp: same_store_def unique_pairs_def)
  done


lemma deleteJob_unique_pairs:
  assumes "unique_pairs w"
  shows "unique_pairs (snd (deleteJob env i w))"
  using assms
  apply (simp add: deleteJob_def split: sum.splits prod.splits option.splits)
  apply (intro conjI allI impI)
  apply (auto dest!: jobDescription_findUnique_store deleteVector_if_set_rows
      dest: jobDescription_delete_unique_pairs simp: same_store_def unique_pairs_def)
  done

lemma matchJob_created_appends:
  assumes run: "matchJob env body w = (Response 201 (MatchCreated d), w')"
    and refs: "matches_reference_jobs w"
  shows "res_jobId d \<notin> set (map job_id (jobs w))
       \<and> res_jobId d \<in> set (map job_id (jobs w'))
       \<and> set (map job_id (jobs w)) \<subseteq> set (map job_id (jobs w'))
       \<and> matches_reference_jobs w'
       \<and> (\<exists>m. matches w' = matches w @ [m] \<and> match_id m = res_id d
              \<and> match_resumeId m = res_resumeId d \<and> match_jobId m = res_jobId d
              \<and> match_similarityScore m = res_similarityScore d)"
proof -
  from run obtain req :: JobMatchRequest and resume :: Resume and jobSkills
    and job :: JobDescription and resumeEmbedding w7 hits w8 questions recs w10
    and m :: JobMatch
    where fresh: "job_id job \<notin> set (map job_id (jobs w))"
      and m7: "matches w7 = matches w"
      and j7: "map job_id (jobs w7) = map job_id (jobs w) @ [job_id job]"
      and q: "findSimilar env resumeEmbedding (Some 10) (Some ''job'') w7 = (Inr hits, w8)"
      and s810: "same_store w8 w10"
      and u: "jobMatch_upsert env (resumeId req) (job_id job)
          (matchJob_similarityScore (''job_'' @ job_id job) hits)
          (analyzeSkillGaps (String_toLowerCase env) (resume_extractedSkills resume) jobSkills)
          (matched (analyzeSkillGaps (String_toLowerCase env) (resume_extractedSkills resume) jobSkills))
          questions recs w10 = (Inr m, w')"
      and d: "d = \<lparr>res_id = match_id m, res_resumeId = resumeId req, res_jobId = job_id job,
            res_jobTitle = jobTitle req,
            res_similarityScore = matchJob_similarityScore (''job_'' @ job_id job) hits,
            res_skillGaps =
              analyzeSkillGaps (String_toLowerCase env) (resume_extractedSkills resume) jobSkills,
            res_matchedSkills =
              matched (analyzeSkillGaps (String_toLowerCase env) (resume_extractedSkills resume) jobSkills),
            res_interviewQuestions = questions, res_recommendations = recs\<rparr>"
    by (rule matchJob_created) blast
  from q have s78: "same_store w7 w8" by (rule findSimilar_store)
  have m10: "matches w10 = matches w"
    and j10: "map job_id (jobs w10) = map job_id (jobs w) @ [job_id job]"
    using s78 s810 m7 j7 by (simp_all add: same_store_def)
  have jw': "jobs w' = jobs w10" using u by (auto dest: jobMatch_upsert_jobs)
  have "list_all (\<lambda>x. match_jobId x \<noteq> job_id job) (matches w10)"
    unfolding m10 list_all_iff
  proof
    fix x assume "x \<in> set (matches w)"
    with refs have "match_jobId x \<in> set (map job_id (jobs w))"
      by (simp add: matches_reference_jobs_def list_all_iff)
    with fresh show "match_jobId x \<noteq> job_id job" by metis
  qed
  with u have app: "matches w' = matches w10 @ [m]" by (rule jobMatch_upsert_fresh)
  have mm: "match_resumeId m = resumeId req" "match_jobId m = job_id job"
    "match_similarityScore m = matchJob_similarityScore (''job_'' @ job_id job) hits"
    using jobMatch_upsert_Inr [OF u] by simp_all
  have refs': "matches_reference_jobs w'"
    using refs app m10 jw' j10 mm by (auto simp: matches_reference_jobs_def list_all_iff)
  have "\<exists>m. matches w' = matches w @ [m] \<and> match_id m = res_id d
              \<and> match_resumeId m = res_resumeId d \<and> match_jobId m = res_jobId d
              \<and> match_similarityScore m = res_similarityScore d"
    using app m10 mm d by simp
  moreover have "res_jobId d \<notin> set (map job_id (jobs w))" using fresh d by simp
  moreover have "res_jobId d \<in> set (map job_id (jobs w'))"
    "set (map job_id (jobs w)) \<subseteq> set (map job_id (jobs w'))"
    using jw' j10 d by auto
  ultimately show ?thesis using refs' by blast
qed

text \<open>
  C9, amended. At most one match exists for a pair \<open>(resumeId, jobId)\<close>: the handlers
  that write the match table (\<open>matchJob\<close>, \<open>deleteResume\<close>, \<open>deleteJob\<close>) keep the pairs
  distinct. Every successful call of \<open>matchJob\<close> creates a job with a new identifier, so
  two successful calls with the same request, in a state whose matches refer to existing
  jobs, add two matches, one for each new job, and leave the earlier rows as they were:
  the second call does not overwrite the match of the first.
\<close>

theorem matchJob_upsert_per_pair:
  "(unique_pairs w \<longrightarrow>
      unique_pairs (snd (matchJob env body w))
    \<and> unique_pairs (snd (deleteResume env ident w))
    \<and> unique_pairs (snd (deleteJob env ident w)))
   \<and> (matches_reference_jobs w
      \<and> matchJob env body w = (Response 201 (MatchCreated d1), w1)
      \<and> matchJob env body w1 = (Response 201 (MatchCreated d2), w2) \<longrightarrow>
        res_jobId d1 \<noteq> res_jobId d2
      \<and> (\<exists>m1 m2. matches w2 = matches w @ [m1, m2]
            \<and> match_id m1 = res_id d1 \<and> match_resumeId m1 = res_resumeId d1
            \<and> match_jobId m1 = res_jobId d1
            \<and> match_similarityScore m1 = res_similarityScore d1
            \<and> match_id m2 = res_id d2 \<and> match_resumeId m2 = res_resumeId d2
            \<and> match_jobId m2 = res_jobId d2))"
proof -
  have inv: "unique_pairs (snd (matchJob env body w))
    \<and> unique_pairs (snd (deleteResume env ident w))
    \<and> unique_pairs (snd (deleteJob env ident w))" if "unique_pairs w"
    using that by (simp add: matchJob_unique_pairs deleteResume_unique_pairs
        deleteJob_unique_pairs)
  have twice: "res_jobId d1 \<noteq> res_jobId d2
      \<and> (\<exists>m1 m2. matches w2 = matches w @ [m1, m2]
            \<and> match_id m1 = res_id d1 \<and> match_resumeId m1 = res_resumeId d1
            \<and> match_jobId m1 = res_jobId d1
            \<and> match_similarityScore m1 = res_similarityScore d1
            \<and> match_id m2 = res_id d2 \<and> match_resumeId m2 = res_resumeId d2
            \<and> match_jobId m2 = res_jobId d2)"
    if refs: "matches_reference_jobs w"
      and r1: "matchJob env body w = (Response 201 (MatchCreated d1), w1)"
      and r2: "matchJob env body w1 = (Response 201 (MatchCreated d2), w2)"
  proof -
    note a = matchJob_created_appends [OF r1 refs]
    from a have refs1: "matches_reference_jobs w1" by blast
    note b = matchJob_created_appends [OF r2 refs1]
    from a have "res_jobId d1 \<in> set (map job_id (jobs w1))" by (rule conjunct1 [OF conjunct2])
    moreover from b have "res_jobId d2 \<notin> set (map job_id (jobs w1))" by (rule conjunct1)
    ultimately have "res_jobId d1 \<noteq> res_jobId d2" by metis
    moreover from a obtain m1 where "matches w1 = matches w @ [m1]" "match_id m1 = res_id d1"
      "match_resumeId m1 = res_resumeId d1" "match_jobId m1 = res_jobId d1"
      "match_similarityScore m1 = res_similarityScore d1"
      by blast
    moreover from b obtain m2 where "matches w2 = matches w1 @ [m2]" "match_id m2 = res_id d2"
      "match_resumeId m2 = res_resumeId d2" "match_jobId m2 = res_jobId d2"
      by blast
    ultimately show ?thesis by simp
  qed
  from inv twice show ?thesis by blast
qed

lemma matchJob_demo_again:
  "(case matchJob demo_env demo_body demo_world_1 of
      (out, w) \<Rightarrow> out = Response 201 (MatchCreated demo_response_2)
                  \<and> matches w = [demo_match, demo_match_2])"
  by (simp add: matchJob_steps demo_defs demo_match_2_def demo_response_2_def)

lemma matchJob_demo_second:
  "matchJob demo_env demo_body demo_world_1 = (Response 201 (MatchCreated demo_response_2), demo_world_2)"
  using matchJob_demo_again
  by (simp add: demo_world_2_def split_beta prod_eq_iff)

lemma matches_demo_world_2: "matches demo_world_2 = [demo_match, demo_match_2]"
  using matchJob_demo_again
  by (simp add: demo_world_2_def split_beta)

theorem matchJob_upsert_per_pair_witness:
  "unique_pairs demo_world \<and> matches_reference_jobs demo_world
   \<and> matchJob demo_env demo_body demo_world
       = (Response 201 (MatchCreated demo_response), demo_world_1)
   \<and> matchJob demo_env demo_body demo_world_1
       = (Response 201 (MatchCreated demo_response_2), demo_world_2)
   \<and> unique_pairs demo_world_1
   \<and> res_jobId demo_response \<noteq> res_jobId demo_response_2
   \<and> (\<exists>m1 m2. matches demo_world_2 = matches demo_world @ [m1, m2]
          \<and> match_jobId m1 = res_jobId demo_response
          \<and> match_jobId m2 = res_jobId demo_response_2)"
proof -
  have u: "unique_pairs demo_world" and r: "matches_reference_jobs demo_world"
    by (simp_all add: unique_pairs_def matches_reference_jobs_def demo_world_def)
  note t = matchJob_upsert_per_pair [of demo_world demo_env demo_body "''r1''"
      demo_response demo_world_1 demo_response_2 demo_world_2]
  from t u have "unique_pairs (snd (matchJob demo_env demo_body demo_world))" by blast
  then have u1: "unique_pairs demo_world_1" by (simp add: matchJob_demo)
  from t r matchJob_demo matchJob_demo_second
  have "res_jobId demo_response \<noteq> res_jobId demo_response_2
      \<and> (\<exists>m1 m2. matches demo_world_2 = matches demo_world @ [m1, m2]
          \<and> match_jobId m1 = res_jobId demo_response
          \<and> match_jobId m2 = res_jobId demo_response_2)"
    by blast
  with u r u1 matchJob_demo matchJob_demo_second show ?thesis by blast
qed

text \<open>
  C9, as stated, fails: the same request matched twice leaves two matches for the resume,
  one per created job, and the match of the first call is still there, unchanged.
\<close>

theorem matchJob_twice_two_matches:
  "matchJob demo_env demo_body demo_world
     = (Response 201 (MatchCreated demo_response), demo_world_1)
   \<and> matchJob demo_env demo_body demo_world_1
     = (Response 201 (MatchCreated demo_response_2), demo_world_2)
   \<and> matches demo_world_1 = [demo_match]
   \<and> matches demo_world_2 = [demo_match, demo_match_2]
   \<and> match_resumeId demo_match = match_resumeId demo_match_2
   \<and> match_jobId demo_match \<noteq> match_jobId demo_match_2"
proof -
  have "matches demo_world_1 = [demo_match]"
    by (simp add: demo_world_1_def)
  moreover have "match_resumeId demo_match = match_resumeId demo_match_2"
    and "match_jobId demo_match \<noteq> match_jobId demo_match_2"
    by (simp_all add: demo_match_def demo_match_2_def)
  moreover note matchJob_demo matchJob_demo_second matches_demo_world_2
  ultimately show ?thesis
    by simp
qed

section \<open>The candidate finder\<close>

lemma findCandidates_ok:
  assumes "findCandidates env body w = (Response 200 (CandidateList cs), w')"
  obtains description jobEmbedding w1 results w2
  where "get_prop body ''jobDescription'' = Some (JStr description)"
    and "description \<noteq> []"
    and "generateEmbedding env description w = (Inr jobEmbedding, w1)"
    and "findSimilar env jobEmbedding
           (Math_min (ToNumber env (case get_prop body ''topK'' of None \<Rightarrow> JNum 5 | Some v \<Rightarrow> v))
              (Some 20))
           (Some ''resume'') w1 = (Inr results, w2)"
    and "cs = map (\<lambda>result.
                    \<lparr>cand_resume =
                       find (\<lambda>r. sel_id r = meta_id (vqr_metadata result))
                         (fst (resume_findMany_in (map (\<lambda>r. meta_id (vqr_metadata r)) results) w2)),
                     cand_similarityScore = calculateSimilarityPercentage (vqr_score result)\<rparr>)
               results"
    and "w' = snd (resume_findMany_in (map (\<lambda>r. meta_id (vqr_metadata r)) results) w2)"
proof -
  from assms obtain description where d: "get_prop body ''jobDescription'' = Some (JStr description)"
    "description \<noteq> []"
    by (auto simp: findCandidates_def Let_def split: json.splits option.splits if_splits)
  then have nn: "body \<noteq> JNull" by (auto simp: get_prop_def)
  obtain r1 w1 where s1: "generateEmbedding env description w = (r1, w1)" by force
  from assms d nn s1 obtain jobEmbedding where r1: "r1 = Inr jobEmbedding"
    by (cases r1; cases body) (auto simp: findCandidates_def Let_def)
  obtain r2 w2 where s2: "findSimilar env jobEmbedding
           (Math_min (ToNumber env (case get_prop body ''topK'' of None \<Rightarrow> JNum 5 | Some v \<Rightarrow> v))
              (Some 20))
           (Some ''resume'') w1 = (r2, w2)" by force
  from assms d nn s1 r1 s2 obtain results where r2: "r2 = Inr results"
    by (cases r2; cases body) (auto simp: findCandidates_def Let_def)
  from assms d nn s1 r1 s2 r2
  have "cs = map (\<lambda>result.
                    \<lparr>cand_resume =
                       find (\<lambda>r. sel_id r = meta_id (vqr_metadata result))
                         (fst (resume_findMany_in (map (\<lambda>r. meta_id (vqr_metadata r)) results) w2)),
                     cand_similarityScore = calculateSimilarityPercentage (vqr_score result)\<rparr>)
               results
      \<and> w' = snd (resume_findMany_in (map (\<lambda>r. meta_id (vqr_metadata r)) results) w2)"
    by (cases body) (auto simp: findCandidates_def Let_def split: prod.splits)
  with d s1 r1 s2 r2 show ?thesis by (intro that) auto
qed






lemma find_selected:
  "x \<in> set ids \<Longrightarrow>
   find (\<lambda>r. sel_id r = x)
     (map (\<lambda>r. \<lparr>sel_id = resume_id r, sel_fileName = resume_fileName r,
                 sel_extractedSkills = resume_extractedSkills r\<rparr>)
        (filter (\<lambda>r. resume_id r \<in> set ids) rs))
   = map_option (\<lambda>r. \<lparr>sel_id = resume_id r, sel_fileName = resume_fileName r,
                 sel_extractedSkills = resume_extractedSkills r\<rparr>)
       (find (\<lambda>r. resume_id r = x) rs)"
  by (induction rs) auto

text \<open>
  What a list of candidates says of the results the run received: one entry for each
  result, in the same order.
\<close>

lemma findCandidates_ok_every_hit:
  assumes "findCandidates env body w = (Response 200 (CandidateList cs), w')"
  shows "\<exists>k emb w1 hits w2.
      findSimilar env emb k (Some ''resume'') w1 = (Inr hits, w2)
    \<and> cs = map (\<lambda>hit.
               \<lparr>cand_resume =
                  map_option (\<lambda>r. \<lparr>sel_id = resume_id r, sel_fileName = resume_fileName r,
                                      sel_extractedSkills = resume_extractedSkills r\<rparr>)
                    (find (\<lambda>r. resume_id r = meta_id (vqr_metadata hit)) (resumes w)),
                cand_similarityScore = calculateSimilarityPercentage (vqr_score hit)\<rparr>)
            hits"
proof -
  from assms obtain description jobEmbedding w1 results w2
    where e: "generateEmbedding env description w = (Inr jobEmbedding, w1)"
      and q: "findSimilar env jobEmbedding
           (Math_min (ToNumber env (case get_prop body ''topK'' of None \<Rightarrow> JNum 5 | Some v \<Rightarrow> v))
              (Some 20))
           (Some ''resume'') w1 = (Inr results, w2)"
      and cs: "cs = map (\<lambda>result.
                    \<lparr>cand_resume =
                       find (\<lambda>r. sel_id r = meta_id (vqr_metadata result))
                         (fst (resume_findMany_in (map (\<lambda>r. meta_id (vqr_metadata r)) results) w2)),
                     cand_similarityScore = calculateSimilarityPercentage (vqr_score result)\<rparr>)
               results"
    by (rule findCandidates_ok) blast
  have rs: "resumes w2 = resumes w"
    using generateEmbedding_store [OF e] findSimilar_store [OF q] by (simp add: same_store_def)
  have "cs = map (\<lambda>hit.
               \<lparr>cand_resume =
                  map_option (\<lambda>r. \<lparr>sel_id = resume_id r, sel_fileName = resume_fileName r,
                                      sel_extractedSkills = resume_extractedSkills r\<rparr>)
                    (find (\<lambda>r. resume_id r = meta_id (vqr_metadata hit)) (resumes w)),
                cand_similarityScore = calculateSimilarityPercentage (vqr_score hit)\<rparr>)
            results"
    unfolding cs
  proof (rule map_cong [OF refl])
    fix hit
    assume "hit \<in> set results"
    then have mem: "meta_id (vqr_metadata hit) \<in> set (map (\<lambda>r. meta_id (vqr_metadata r)) results)"
      by auto
    show "\<lparr>cand_resume =
             find (\<lambda>r. sel_id r = meta_id (vqr_metadata hit))
               (fst (resume_findMany_in (map (\<lambda>r. meta_id (vqr_metadata r)) results) w2)),
           cand_similarityScore = calculateSimilarityPercentage (vqr_score hit)\<rparr>
        = \<lparr>cand_resume =
             map_option (\<lambda>r. \<lparr>sel_id = resume_id r, sel_fileName = resume_fileName r,
                                 sel_extractedSkills = resume_extractedSkills r\<rparr>)
               (find (\<lambda>r. resume_id r = meta_id (vqr_metadata hit)) (resumes w)),
           cand_similarityScore = calculateSimilarityPercentage (vqr_score hit)\<rparr>"
      using find_selected [OF mem, of "resumes w"] by (simp add: resume_findMany_in_def rs)
  qed
  with q show ?thesis by blast
qed

text \<open>
  C7, amended. When the job description is a non-empty string and the embedding and the
  query succeed, \<open>findCandidates\<close> answers 200 with one entry for each result of the
  index, in the index's order, each with the result's score as a percentage. The entry
  of a result whose resume is in the store carries the selected fields of that resume;
  the entry of a result whose resume is not in the store carries the percentage alone.
  No result is dropped, and a result without a resume is not an error.
\<close>

theorem findCandidates_keeps_every_hit:
  assumes "get_prop body ''jobDescription'' = Some (JStr description)"
    and "description \<noteq> []"
    and "generateEmbedding env description w = (Inr jobEmbedding, w1)"
    and "findSimilar env jobEmbedding
           (Math_min (ToNumber env (case get_prop body ''topK'' of None \<Rightarrow> JNum 5 | Some v \<Rightarrow> v))
              (Some 20))
           (Some ''resume'') w1 = (Inr results, w2)"
  shows "\<exists>cs.
      findCandidates env body w
        = (Response 200 (CandidateList cs), record_event (Prisma ''resume.findMany'') w2)
    \<and> length cs = length results
    \<and> (\<forall>i. i < length results \<longrightarrow>
          cand_similarityScore (cs ! i) = calculateSimilarityPercentage (vqr_score (results ! i))
        \<and> cand_resume (cs ! i)
            = map_option (\<lambda>r. \<lparr>sel_id = resume_id r, sel_fileName = resume_fileName r,
                                sel_extractedSkills = resume_extractedSkills r\<rparr>)
                (find (\<lambda>r. resume_id r = meta_id (vqr_metadata (results ! i))) (resumes w))
        \<and> (meta_id (vqr_metadata (results ! i)) \<notin> set (map resume_id (resumes w)) \<longrightarrow>
             cand_resume (cs ! i) = None))"
proof -
  let ?cs = "map (\<lambda>result.
                    \<lparr>cand_resume =
                       find (\<lambda>r. sel_id r = meta_id (vqr_metadata result))
                         (fst (resume_findMany_in (map (\<lambda>r. meta_id (vqr_metadata r)) results) w2)),
                     cand_similarityScore = calculateSimilarityPercentage (vqr_score result)\<rparr>)
               results"
  from assms(1) obtain kvs where body: "body = JObj kvs"
    by (cases body) (auto simp: get_prop_def)
  have run: "findCandidates env body w
        = (Response 200 (CandidateList ?cs), record_event (Prisma ''resume.findMany'') w2)"
    using assms unfolding body
    by (simp add: findCandidates_def Let_def resume_findMany_in_def)
  have rs: "resumes w2 = resumes w"
    using generateEmbedding_store [OF assms(3)] findSimilar_store [OF assms(4)]
    by (simp add: same_store_def)
  have len: "length ?cs = length results" by simp
  have each: "cand_similarityScore (?cs ! i) = calculateSimilarityPercentage (vqr_score (results ! i))
        \<and> cand_resume (?cs ! i)
            = map_option (\<lambda>r. \<lparr>sel_id = resume_id r, sel_fileName = resume_fileName r,
                                sel_extractedSkills = resume_extractedSkills r\<rparr>)
                (find (\<lambda>r. resume_id r = meta_id (vqr_metadata (results ! i))) (resumes w))
        \<and> (meta_id (vqr_metadata (results ! i)) \<notin> set (map resume_id (resumes w)) \<longrightarrow>
             cand_resume (?cs ! i) = None)"
    if i: "i < length results" for i
  proof -
    let ?x = "meta_id (vqr_metadata (results ! i))"
    have mem: "?x \<in> set (map (\<lambda>r. meta_id (vqr_metadata r)) results)"
      using i by auto
    have c: "cand_resume (?cs ! i)
            = map_option (\<lambda>r. \<lparr>sel_id = resume_id r, sel_fileName = resume_fileName r,
                                sel_extractedSkills = resume_extractedSkills r\<rparr>)
                (find (\<lambda>r. resume_id r = ?x) (resumes w))"
      using i find_selected [OF mem, of "resumes w"]
      by (simp add: resume_findMany_in_def rs)
    have "find (\<lambda>r. resume_id r = ?x) (resumes w) = None"
      if "?x \<notin> set (map resume_id (resumes w))"
      using that by (auto simp: find_None_iff image_iff)
    with c i show ?thesis by simp
  qed
  have each': "\<forall>i. i < length results \<longrightarrow>
          cand_similarityScore (?cs ! i) = calculateSimilarityPercentage (vqr_score (results ! i))
        \<and> cand_resume (?cs ! i)
            = map_option (\<lambda>r. \<lparr>sel_id = resume_id r, sel_fileName = resume_fileName r,
                                sel_extractedSkills = resume_extractedSkills r\<rparr>)
                (find (\<lambda>r. resume_id r = meta_id (vqr_metadata (results ! i))) (resumes w))
        \<and> (meta_id (vqr_metadata (results ! i)) \<notin> set (map resume_id (resumes w)) \<longrightarrow>
             cand_resume (?cs ! i) = None)"
    using each by (intro allI impI)
  show ?thesis
    apply (rule exI [of _ ?cs])
    apply (intro conjI)
      apply (rule run)
     apply (rule len)
    apply (rule each')
    done
qed


lemmas findCandidates_steps =
  findCandidates_def get_prop_def generateEmbedding_def record_event_def findSimilar_def
  initializeIndex_def toVectorQueryResult_def or_number_def or_string_def Math_min_def
  ToNumber_def resume_findMany_in_def calculateSimilarityPercentage_values
  Let_def demo_env_def demo_world_def demo_resume_def dangling_candidate_def
  candidates_world_def candidates_events_def

lemma findCandidates_demo:
  "findCandidates demo_env candidates_body demo_world
     = (Response 200 (CandidateList [dangling_candidate]), candidates_world 5)"
  by (simp add: findCandidates_steps candidates_body_def)




lemma findCandidates_busy:
  "findCandidates busy_env candidates_body demo_world
     = (Response 200 (CandidateList [r1_candidate, dangling_candidate]), candidates_world 5)"
  by (simp add: findCandidates_steps candidates_body_def busy_env_def r1_hit_def
        dangling_hit_def r1_candidate_def skills_only_def)

theorem findCandidates_keeps_every_hit_witness:
  "pinecone_query busy_env
     [OpenAI_embedding ''Backend engineer, Python'', Pinecone_listIndexes]
     [1, 0] (Some 5) (Some ''resume'')
     = Inr (Some [r1_hit, dangling_hit])
   \<and> (\<exists>cs w'. findCandidates busy_env candidates_body demo_world
                 = (Response 200 (CandidateList cs), w')
         \<and> length cs = 2
         \<and> cand_resume (cs ! 0)
             = Some \<lparr>sel_id = ''r1'', sel_fileName = ''cv.pdf'',
                     sel_extractedSkills = skills_only [''Python'', ''Docker'']\<rparr>
         \<and> cand_similarityScore (cs ! 0) = Num 100
         \<and> cand_resume (cs ! 1) = None
         \<and> cand_similarityScore (cs ! 1) = Num 75)"
proof -
  let ?d = "''Backend engineer, Python''"
  let ?w1 = "snd (generateEmbedding busy_env ?d demo_world)"
  let ?k = "Math_min (ToNumber busy_env
              (case get_prop candidates_body ''topK'' of None \<Rightarrow> JNum 5 | Some v \<Rightarrow> v))
              (Some 20)"
  let ?w2 = "snd (findSimilar busy_env [1, 0] ?k (Some ''resume'') ?w1)"
  let ?hits = "[toVectorQueryResult r1_hit, toVectorQueryResult dangling_hit]"
  note defs = findCandidates_steps candidates_body_def busy_env_def r1_hit_def
    dangling_hit_def skills_only_def prod_eq_iff
  have s0: "get_prop candidates_body ''jobDescription'' = Some (JStr ?d)"
    by (simp add: defs)
  have s1: "?d \<noteq> []" by simp
  have s2: "generateEmbedding busy_env ?d demo_world = (Inr [1, 0], ?w1)"
    by (simp add: defs)
  have s3: "findSimilar busy_env [1, 0] ?k (Some ''resume'') ?w1 = (Inr ?hits, ?w2)"
    by (simp add: defs)
  have query: "pinecone_query busy_env
     [OpenAI_embedding ''Backend engineer, Python'', Pinecone_listIndexes]
     [1, 0] (Some 5) (Some ''resume'')
     = Inr (Some [r1_hit, dangling_hit])"
    by (simp add: busy_env_def demo_env_def)
  from findCandidates_keeps_every_hit [OF s0 s1 s2 s3]
  obtain cs where run: "findCandidates busy_env candidates_body demo_world
        = (Response 200 (CandidateList cs), record_event (Prisma ''resume.findMany'') ?w2)"
    and len: "length cs = length ?hits"
    and each: "\<forall>i. i < length ?hits \<longrightarrow>
          cand_similarityScore (cs ! i) = calculateSimilarityPercentage (vqr_score (?hits ! i))
        \<and> cand_resume (cs ! i)
            = map_option (\<lambda>r. \<lparr>sel_id = resume_id r, sel_fileName = resume_fileName r,
                                sel_extractedSkills = resume_extractedSkills r\<rparr>)
                (find (\<lambda>r. resume_id r = meta_id (vqr_metadata (?hits ! i))) (resumes demo_world))
        \<and> (meta_id (vqr_metadata (?hits ! i)) \<notin> set (map resume_id (resumes demo_world)) \<longrightarrow>
             cand_resume (cs ! i) = None)"
    by blast
  from each [rule_format, of 0]
  have c0: "cand_resume (cs ! 0)
             = Some \<lparr>sel_id = ''r1'', sel_fileName = ''cv.pdf'',
                     sel_extractedSkills = skills_only [''Python'', ''Docker'']\<rparr>"
    "cand_similarityScore (cs ! 0) = Num 100"
    by (simp_all add: defs)
  from each [rule_format, of 1]
  have c1: "cand_resume (cs ! 1) = None" "cand_similarityScore (cs ! 1) = Num 75"
    by (simp_all add: defs)
  from len have l: "length cs = 2" by simp
  from run l c0 c1 have "\<exists>cs w'. findCandidates busy_env candidates_body demo_world
                 = (Response 200 (CandidateList cs), w')
         \<and> length cs = 2
         \<and> cand_resume (cs ! 0)
             = Some \<lparr>sel_id = ''r1'', sel_fileName = ''cv.pdf'',
                     sel_extractedSkills = skills_only [''Python'', ''Docker'']\<rparr>
         \<and> cand_similarityScore (cs ! 0) = Num 100
         \<and> cand_resume (cs ! 1) = None
         \<and> cand_similarityScore (cs ! 1) = Num 75"
    by blast
  with query show ?thesis by blast
qed

text \<open>
  C7, as stated, fails: the index of \<open>busy_env\<close> returns the vector of the resume \<open>r1\<close>
  and then a vector of the resume \<open>gone\<close>, which is not in the store, and the response
  holds an entry for each of them, in that order: the second with a percentage and no
  resume.
\<close>

theorem findCandidates_dangling_hit_kept:
  "pinecone_query busy_env
     [OpenAI_embedding ''Backend engineer, Python'', Pinecone_listIndexes]
     [1, 0] (Some 5) (Some ''resume'')
     = Inr (Some [r1_hit, dangling_hit])
   \<and> meta_id (vqr_metadata (toVectorQueryResult dangling_hit)) = ''gone''
   \<and> ''gone'' \<notin> set (map resume_id (resumes demo_world))
   \<and> findCandidates busy_env candidates_body demo_world
       = (Response 200 (CandidateList [r1_candidate, dangling_candidate]), candidates_world 5)
   \<and> cand_resume dangling_candidate = None"
  using findCandidates_busy
  by (simp add: busy_env_def demo_env_def dangling_hit_def toVectorQueryResult_def or_string_def
        demo_world_def demo_resume_def dangling_candidate_def)

section \<open>Deleting vectors\<close>

lemma deleteVector_after_init:
  assumes "initializeIndex env w = (Inr (), w1)"
  shows "fst (deleteVector env vectorId w) = Inr ()"
    and "pinecone_deleteOne env (events w1) vectorId = Some e \<Longrightarrow>
           deleteVector env vectorId w = (Inr (), record_event (Pinecone_deleteOne vectorId) w1)"
  using assms by (auto simp: deleteVector_def Let_def split: option.splits)

lemma deleteVector_error:
  "deleteVector env vectorId w = (Inl e, w') \<Longrightarrow> initializeIndex env w = (Inl e, w')"
  by (auto simp: deleteVector_def Let_def split: prod.splits sum.splits option.splits)

lemma resume_delete_existing:
  assumes "find (\<lambda>r. resume_id r = ident) (resumes w) = Some resume"
  shows "resume_delete ident w =
           (Inr (), (record_event (Prisma ''resume.delete'') w)
              \<lparr>resumes := filter (\<lambda>r. resume_id r \<noteq> ident) (resumes w),
               matches := filter (\<lambda>m. match_resumeId m \<noteq> ident) (matches w)\<rparr>)"
proof -
  from assms have "ident \<in> set (map resume_id (resumes w))"
    by (auto simp: find_Some_iff image_iff)
  then show ?thesis
    by (simp add: resume_delete_def Let_def record_event_def)
qed

lemma jobDescription_delete_existing:
  assumes "find (\<lambda>j. job_id j = ident) (jobs w) = Some job"
  shows "jobDescription_delete ident w =
           (Inr (), (record_event (Prisma ''jobDescription.delete'') w)
              \<lparr>jobs := filter (\<lambda>j. job_id j \<noteq> ident) (jobs w),
               matches := filter (\<lambda>m. match_jobId m \<noteq> ident) (matches w)\<rparr>)"
proof -
  from assms have "ident \<in> set (map job_id (jobs w))"
    by (auto simp: find_Some_iff image_iff)
  then show ?thesis
    by (simp add: jobDescription_delete_def Let_def record_event_def)
qed


lemma deleteResume_delete_failure:
  assumes f: "find (\<lambda>r. resume_id r = ident) (resumes w) = Some resume"
    and v: "resume_vectorId resume = Some v" "v \<noteq> []"
    and i: "initializeIndex env (record_event (Prisma ''resume.findUnique'') w) = (Inr (), w1)"
    and d: "pinecone_deleteOne env (events w1) v = Some e"
  shows "\<exists>w'. deleteResume env ident w
                = (Response 200 (Done ''Resume deleted successfully''), w')
           \<and> ident \<notin> set (map resume_id (resumes w')) \<and> vectors w' = vectors w"
proof -
  let ?w2 = "record_event (Pinecone_deleteOne v) w1"
  have dv: "deleteVector env v (record_event (Prisma ''resume.findUnique'') w) = (Inr (), ?w2)"
    using deleteVector_after_init(2) [OF i d] .
  from initializeIndex_store [OF i]
  have st: "resumes ?w2 = resumes w" "vectors ?w2 = vectors w"
    by (simp_all add: same_store_def record_event_def)
  from f st have f2: "find (\<lambda>r. resume_id r = ident) (resumes ?w2) = Some resume" by simp
  let ?w3 = "(record_event (Prisma ''resume.delete'') ?w2)
              \<lparr>resumes := filter (\<lambda>r. resume_id r \<noteq> ident) (resumes ?w2),
               matches := filter (\<lambda>m. match_resumeId m \<noteq> ident) (matches ?w2)\<rparr>"
  have rd: "resume_delete ident ?w2 = (Inr (), ?w3)"
    by (rule resume_delete_existing [OF f2])
  have "deleteResume env ident w = (Response 200 (Done ''Resume deleted successfully''), ?w3)"
    using f v dv rd
    by (simp add: deleteResume_def resume_findUnique_def deleteVector_if_set_def)
  moreover have "ident \<notin> set (map resume_id (resumes ?w3))"
    by (auto simp: record_event_def)
  moreover have "vectors ?w3 = vectors w"
    using st by (simp add: record_event_def)
  ultimately show ?thesis by blast
qed

lemma deleteJob_delete_failure:
  assumes f: "find (\<lambda>j. job_id j = ident) (jobs w) = Some job"
    and v: "job_vectorId job = Some v" "v \<noteq> []"
    and i: "initializeIndex env (record_event (Prisma ''jobDescription.findUnique'') w) = (Inr (), w1)"
    and d: "pinecone_deleteOne env (events w1) v = Some e"
  shows "\<exists>w'. deleteJob env ident w
                = (Response 200 (Done ''Job deleted successfully''), w')
           \<and> ident \<notin> set (map job_id (jobs w')) \<and> vectors w' = vectors w"
proof -
  let ?w2 = "record_event (Pinecone_deleteOne v) w1"
  have dv: "deleteVector env v (record_event (Prisma ''jobDescription.findUnique'') w) = (Inr (), ?w2)"
    using deleteVector_after_init(2) [OF i d] .
  from initializeIndex_store [OF i]
  have st: "jobs ?w2 = jobs w" "vectors ?w2 = vectors w"
    by (simp_all add: same_store_def record_event_def)
  from f st have f2: "find (\<lambda>j. job_id j = ident) (jobs ?w2) = Some job" by simp
  let ?w3 = "(record_event (Prisma ''jobDescription.delete'') ?w2)
              \<lparr>jobs := filter (\<lambda>j. job_id j \<noteq> ident) (jobs ?w2),
               matches := filter (\<lambda>m. match_jobId m \<noteq> ident) (matches ?w2)\<rparr>"
  have rd: "jobDescription_delete ident ?w2 = (Inr (), ?w3)"
    by (rule jobDescription_delete_existing [OF f2])
  have "deleteJob env ident w = (Response 200 (Done ''Job deleted successfully''), ?w3)"
    using f v dv rd
    by (simp add: deleteJob_def jobDescription_findUnique_def deleteVector_if_set_def)
  moreover have "ident \<notin> set (map job_id (jobs ?w3))"
    by (auto simp: record_event_def)
  moreover have "vectors ?w3 = vectors w"
    using st by (simp add: record_event_def)
  ultimately show ?thesis by blast
qed

text \<open>
  C10. \<open>deleteVector\<close> never passes on a failure of the index's delete operation: the
  only error it can raise is the one of \<open>initializeIndex\<close>, which runs before the
  \<open>try\<close>; once the index is initialised it returns normally, and when the delete
  operation fails the vectors of the index are as before. So deleting a resume or a job
  whose vector could not be deleted is answered with status 200, the row is gone and
  the vector stays in the index.
\<close>

theorem deleteVector_swallows_delete_failure:
  "(deleteVector env vectorId w = (Inl e, w') \<longrightarrow> initializeIndex env w = (Inl e, w'))
   \<and> (initializeIndex env w = (Inr (), w1) \<longrightarrow>
         fst (deleteVector env vectorId w) = Inr ()
       \<and> (pinecone_deleteOne env (events w1) vectorId = Some e \<longrightarrow>
            vectors (snd (deleteVector env vectorId w)) = vectors w))
   \<and> (find (\<lambda>r. resume_id r = ident) (resumes w) = Some resume
       \<and> resume_vectorId resume = Some v \<and> v \<noteq> []
       \<and> initializeIndex env (record_event (Prisma ''resume.findUnique'') w) = (Inr (), w1)
       \<and> pinecone_deleteOne env (events w1) v = Some e \<longrightarrow>
         (\<exists>w'. deleteResume env ident w
                  = (Response 200 (Done ''Resume deleted successfully''), w')
             \<and> ident \<notin> set (map resume_id (resumes w')) \<and> vectors w' = vectors w))
   \<and> (find (\<lambda>j. job_id j = ident) (jobs w) = Some job
       \<and> job_vectorId job = Some v \<and> v \<noteq> []
       \<and> initializeIndex env (record_event (Prisma ''jobDescription.findUnique'') w) = (Inr (), w1)
       \<and> pinecone_deleteOne env (events w1) v = Some e \<longrightarrow>
         (\<exists>w'. deleteJob env ident w
                  = (Response 200 (Done ''Job deleted successfully''), w')
             \<and> ident \<notin> set (map job_id (jobs w')) \<and> vectors w' = vectors w))"
proof (intro conjI impI)
  assume "deleteVector env vectorId w = (Inl e, w')"
  then show "initializeIndex env w = (Inl e, w')" by (rule deleteVector_error)
next
  assume i: "initializeIndex env w = (Inr (), w1)"
  then show "fst (deleteVector env vectorId w) = Inr ()" by (rule deleteVector_after_init(1))
  assume "pinecone_deleteOne env (events w1) vectorId = Some e"
  from deleteVector_after_init(2) [OF i this] initializeIndex_store [OF i]
  show "vectors (snd (deleteVector env vectorId w)) = vectors w"
    by (simp add: same_store_def record_event_def)
next
  assume "find (\<lambda>r. resume_id r = ident) (resumes w) = Some resume
       \<and> resume_vectorId resume = Some v \<and> v \<noteq> []
       \<and> initializeIndex env (record_event (Prisma ''resume.findUnique'') w) = (Inr (), w1)
       \<and> pinecone_deleteOne env (events w1) v = Some e"
  then show "\<exists>w'. deleteResume env ident w
                  = (Response 200 (Done ''Resume deleted successfully''), w')
             \<and> ident \<notin> set (map resume_id (resumes w')) \<and> vectors w' = vectors w"
    using deleteResume_delete_failure by blast
next
  assume "find (\<lambda>j. job_id j = ident) (jobs w) = Some job
       \<and> job_vectorId job = Some v \<and> v \<noteq> []
       \<and> initializeIndex env (record_event (Prisma ''jobDescription.findUnique'') w) = (Inr (), w1)
       \<and> pinecone_deleteOne env (events w1) v = Some e"
  then show "\<exists>w'. deleteJob env ident w
                  = (Response 200 (Done ''Job deleted successfully''), w')
             \<and> ident \<notin> set (map job_id (jobs w')) \<and> vectors w' = vectors w"
    using deleteJob_delete_failure by blast
qed


theorem deleteVector_swallows_delete_failure_witness:
  "find (\<lambda>r. resume_id r = ''r1'') (resumes demo_world) = Some demo_resume
   \<and> resume_vectorId demo_resume = Some ''resume_r1''
   \<and> pinecone_deleteOne demo_env [Prisma ''resume.findUnique'', Pinecone_listIndexes]
         ''resume_r1'' = Some (Error ''index unavailable'')
   \<and> (\<exists>w'. deleteResume demo_env ''r1'' demo_world
                = (Response 200 (Done ''Resume deleted successfully''), w')
           \<and> ''r1'' \<notin> set (map resume_id (resumes w'))
           \<and> vectors w' = vectors demo_world)"
proof -
  let ?w1 = "(record_event Pinecone_listIndexes
               (record_event (Prisma ''resume.findUnique'') demo_world))
             \<lparr>indexInitialized := True\<rparr>"
  have f: "find (\<lambda>r. resume_id r = ''r1'') (resumes demo_world) = Some demo_resume"
    by (simp add: demo_world_def demo_resume_def)
  have v: "resume_vectorId demo_resume = Some ''resume_r1''" "''resume_r1'' \<noteq> []"
    by (simp_all add: demo_resume_def)
  have i: "initializeIndex demo_env (record_event (Prisma ''resume.findUnique'') demo_world)
             = (Inr (), ?w1)"
    by (simp add: initializeIndex_def demo_env_def demo_world_def record_event_def Let_def)
  have ev: "events ?w1 = [Prisma ''resume.findUnique'', Pinecone_listIndexes]"
    by (simp add: record_event_def demo_world_def)
  have d: "pinecone_deleteOne demo_env (events ?w1) ''resume_r1''
             = Some (Error ''index unavailable'')"
    by (simp add: demo_env_def)
  note t = deleteVector_swallows_delete_failure [where env = demo_env and w = demo_world
      and ident = "''r1''" and resume = demo_resume and v = "''resume_r1''" and ?w1.0 = ?w1
      and e = "Error ''index unavailable''"]
  from t f v i d
  have "\<exists>w'. deleteResume demo_env ''r1'' demo_world
                = (Response 200 (Done ''Resume deleted successfully''), w')
           \<and> ''r1'' \<notin> set (map resume_id (resumes w'))
           \<and> vectors w' = vectors demo_world"
    by blast
  with f v(1) d ev show ?thesis by simp
qed

end
